theory Spec2Isabelle
  imports Main "HOL-Library.Word" "HOL-Library.Log_Nat" "HOL-Library.AList"
begin

section \<open>Single-precision arithmetic\<close>

text \<open>
  The firmware computes the controller values in C++ \<^verbatim>\<open>float\<close>. A finite float is
  modelled by the rational number it denotes; every operation computes the exact result
  and rounds it to the nearest binary32 value, ties to even. \<open>f32_exponent x\<close> is the
  exponent of the unit in the last place that applies to \<open>x\<close>: 24 significant bits, and
  the fixed spacing \<open>2 powi (- 149)\<close> in the subnormal range. The exponent is not bounded
  above, so an overflow to infinity appears as a huge finite value; the only consumer is
  the conversion to \<^verbatim>\<open>uint8_t\<close>, which is undefined for both.
\<close>

definition round_even :: "rat \<Rightarrow> int" where
  "round_even x =
     (let n = \<lfloor>x\<rfloor>; d = x - of_int n
      in if d < 1 / 2 then n else if 1 / 2 < d then n + 1 else if even n then n else n + 1)"

definition f32_exponent :: "rat \<Rightarrow> int" where
  "f32_exponent x = max (bitlen \<lfloor>\<bar>x\<bar> * 2 ^ 149\<rfloor> - 173) (- 149)"

definition f32 :: "rat \<Rightarrow> rat" where
  "f32 x = (let u = 2 powi (f32_exponent x) in of_int (round_even (x / u)) * u)"

text \<open>Conversion of an integer to \<^verbatim>\<open>float\<close>.\<close>

definition float_of_int :: "int \<Rightarrow> rat" where
  "float_of_int n = f32 (of_int n)"

text \<open>
  The expression \<^verbatim>\<open>c + (a * b)\<close> on floats. C++ lets the compiler contract it into one
  fused multiply-add with a single rounding; \<open>fused\<close> says whether it did.
\<close>

definition float_mul_add :: "bool \<Rightarrow> rat \<Rightarrow> rat \<Rightarrow> rat \<Rightarrow> rat" where
  "float_mul_add fused c a b = (if fused then f32 (c + a * b) else f32 (c + f32 (a * b)))"

text \<open>
  Conversion of a float to \<^verbatim>\<open>uint8_t\<close>: the value is truncated towards zero; the
  behaviour is undefined (\<open>None\<close>) when the truncated value is not in 0..255.
\<close>

definition trunc :: "rat \<Rightarrow> int" where
  "trunc x = (if 0 \<le> x then \<lfloor>x\<rfloor> else \<lceil>x\<rceil>)"

definition float_to_uint8 :: "rat \<Rightarrow> 8 word option" where
  "float_to_uint8 x = (let t = trunc x in if 0 \<le> t \<and> t \<le> 255 then Some (word_of_int t) else None)"

section \<open>Configuration and device state\<close>

record controller_config =
  controller :: "8 word"
  from_value :: "8 word"
  to_value :: "8 word"

record configuration =
  channel :: "8 word"
  pedal :: controller_config
  poti :: controller_config

text \<open>
  Modelled from the spec: a packet of the MIDI library (\<^verbatim>\<open>V2MIDI::Packet\<close>, not part of the
  sources) is empty or a Control Change with its channel, controller and value, as
  \<^verbatim>\<open>setControlChange\<close> receives them. The packet buffer \<^verbatim>\<open>_midi\<close> holds one.
\<close>

datatype packet = NoPacket | ControlChange "8 word" "8 word" "8 word"

text \<open>
  The members of \<^verbatim>\<open>Device\<close>; the leading underscore of the private members is written
  \<open>m_\<close>. The two \<^verbatim>\<open>V2Potentiometer\<close> filters are values of an arbitrary type \<open>'f\<close>.
\<close>

record 'f device =
  config :: configuration
  m_pedal :: 'f
  m_reverse :: bool
  m_poti :: 'f
  m_step_pedal :: "8 word"
  m_step_poti :: "8 word"
  m_measure_usec :: "32 word"
  m_events_usec :: "32 word"
  m_midi :: packet

text \<open>
  What the code takes from outside the sources: the interface of \<^verbatim>\<open>V2Potentiometer\<close>
  (\<^verbatim>\<open>getFraction\<close>, \<^verbatim>\<open>measure\<close>, \<^verbatim>\<open>reset\<close>) and the compiler's choice on contraction.
\<close>

record 'f platform =
  fp_contract :: bool
  getFraction :: "'f \<Rightarrow> rat"
  pot_measure :: "'f \<Rightarrow> rat \<Rightarrow> 'f"
  pot_reset :: "'f \<Rightarrow> 'f"

text \<open>
  Modelled from the spec: the controller codes \<^verbatim>\<open>V2MIDI::CC::AllSoundOff\<close> and
  \<^verbatim>\<open>V2MIDI::CC::AllNotesOff\<close> of the MIDI library, which is not part of the sources.
\<close>

definition AllSoundOff :: "8 word" where
  "AllSoundOff = 120"

definition AllNotesOff :: "8 word" where
  "AllNotesOff = 123"

section \<open>Value mapping and change detection\<close>

text \<open>
  The two lines shared by both blocks of \<^verbatim>\<open>sendEvents\<close>:
  \<^verbatim>\<open>const float range = (int8_t)to - (int8_t)from;\<close> and
  \<^verbatim>\<open>const uint8_t value = from + (range * fraction);\<close>
\<close>

definition cc_value :: "bool \<Rightarrow> 8 word \<Rightarrow> 8 word \<Rightarrow> rat \<Rightarrow> 8 word option" where
  "cc_value fused frm to fraction =
     (let range = float_of_int (sint to - sint frm)
      in float_to_uint8 (float_mul_add fused (float_of_int (uint frm)) range fraction))"

definition pedal_fraction :: "'f platform \<Rightarrow> 'f device \<Rightarrow> rat" where
  "pedal_fraction P s =
     (if m_reverse s then f32 (1 - getFraction P (m_pedal s)) else getFraction P (m_pedal s))"

definition pedal_value :: "'f platform \<Rightarrow> 'f device \<Rightarrow> 8 word option" where
  "pedal_value P s =
     cc_value (fp_contract P) (from_value (pedal (config s))) (to_value (pedal (config s)))
       (pedal_fraction P s)"

definition poti_value :: "'f platform \<Rightarrow> 'f device \<Rightarrow> 8 word option" where
  "poti_value P s =
     cc_value (fp_contract P) (from_value (poti (config s))) (to_value (poti (config s)))
       (getFraction P (m_poti s))"

text \<open>
  \<^verbatim>\<open>sendEvents\<close> returns the packets handed to \<^verbatim>\<open>send\<close>, in order, and the new state; it
  is \<open>None\<close> when one of the two conversions to \<^verbatim>\<open>uint8_t\<close> is undefined.
\<close>

definition sendEvents :: "'f platform \<Rightarrow> bool \<Rightarrow> 'f device \<Rightarrow> (packet list \<times> 'f device) option" where
  "sendEvents P force s =
     (case pedal_value P s of
        None \<Rightarrow> None
      | Some v \<Rightarrow>
          let p = ControlChange (channel (config s)) (controller (pedal (config s))) v;
              (out1, s1) = (if force \<or> m_step_pedal s \<noteq> v
                            then ([p], s\<lparr>m_step_pedal := v, m_midi := p\<rparr>)
                            else ([], s))
          in (case poti_value P s1 of
                None \<Rightarrow> None
              | Some w \<Rightarrow>
                  let q = ControlChange (channel (config s1)) (controller (poti (config s1))) w
                  in if force \<or> m_step_poti s1 \<noteq> w
                     then Some (out1 @ [q], s1\<lparr>m_step_poti := w, m_midi := q\<rparr>)
                     else Some (out1, s1)))"

definition allNotesOff :: "'f platform \<Rightarrow> 'f device \<Rightarrow> (packet list \<times> 'f device) option" where
  "allNotesOff P s = sendEvents P True s"

definition handleControlChange ::
  "'f platform \<Rightarrow> 8 word \<Rightarrow> 8 word \<Rightarrow> 8 word \<Rightarrow> 'f device \<Rightarrow> (packet list \<times> 'f device) option" where
  "handleControlChange P chan ctrl val s =
     (if ctrl = AllSoundOff \<or> ctrl = AllNotesOff then allNotesOff P s else Some ([], s))"

section \<open>Reset and the polling loop\<close>

text \<open>\<open>now\<close> is the reading of \<^verbatim>\<open>micros()\<close>.\<close>

definition handleReset :: "'f platform \<Rightarrow> 32 word \<Rightarrow> 'f device \<Rightarrow> 'f device" where
  "handleReset P now s =
     s\<lparr>m_pedal := pot_reset P (m_pedal s),
       m_poti := pot_reset P (m_poti s),
       m_step_pedal := 0,
       m_reverse := False,
       m_step_poti := 0,
       m_measure_usec := 0,
       m_events_usec := now,
       m_midi := NoPacket\<rparr>"

text \<open>
  What one pass of \<^verbatim>\<open>handleLoop\<close> reads: the four readings of \<^verbatim>\<open>micros()\<close> in the order
  of the calls, the two ADC channels and the level of the switch pin.
\<close>

record inputs =
  micros_measure_check :: "32 word"
  micros_measure_done :: "32 word"
  micros_events_check :: "32 word"
  micros_events_done :: "32 word"
  adc_pedal :: rat
  adc_poti :: rat
  switch_high :: bool

text \<open>
  The first block of \<^verbatim>\<open>handleLoop\<close>: when more than 5000 microseconds have passed since
  the last measurement, both filters take a sample (the potentiometer's reading is
  inverted) and the time is stamped. The difference of the clock readings wraps around
  as \<^verbatim>\<open>unsigned long\<close> does.
\<close>

definition measure_tick :: "'f platform \<Rightarrow> inputs \<Rightarrow> 'f device \<Rightarrow> 'f device" where
  "measure_tick P i s =
     (if micros_measure_check i - m_measure_usec s > 5 * 1000
      then s\<lparr>m_pedal := pot_measure P (m_pedal s) (adc_pedal i),
             m_poti := pot_measure P (m_poti s) (f32 (1 - adc_poti i)),
             m_measure_usec := micros_measure_done i\<rparr>
      else s)"

text \<open>The switch of the second block: the pin is active low.\<close>

definition read_switch :: "inputs \<Rightarrow> 'f device \<Rightarrow> 'f device" where
  "read_switch i s = (let on = \<not> switch_high i in if on \<noteq> m_reverse s then s\<lparr>m_reverse := on\<rparr> else s)"

definition handleLoop :: "'f platform \<Rightarrow> inputs \<Rightarrow> 'f device \<Rightarrow> (packet list \<times> 'f device) option" where
  "handleLoop P i s =
     (let s1 = measure_tick P i s
      in if micros_events_check i - m_events_usec s1 > 20 * 1000
         then (case sendEvents P False (read_switch i s1) of
                 None \<Rightarrow> None
               | Some (out, s2) \<Rightarrow> Some (out, s2\<lparr>m_events_usec := micros_events_done i\<rparr>))
         else Some ([], s1))"

text \<open>
  Successive passes of \<^verbatim>\<open>handleLoop\<close>, as the main loop makes them while no MIDI
  message arrives; the packets of all passes are collected in order.
\<close>

fun run_passes :: "'f platform \<Rightarrow> inputs list \<Rightarrow> 'f device \<Rightarrow> (packet list \<times> 'f device) option" where
  "run_passes P [] s = Some ([], s)"
| "run_passes P (i # is) s =
     (case handleLoop P i s of
        None \<Rightarrow> None
      | Some (out, s1) \<Rightarrow>
          (case run_passes P is s1 of
             None \<Rightarrow> None
           | Some (out', s2) \<Rightarrow> Some (out @ out', s2)))"

section \<open>Configuration documents\<close>

text \<open>
  Modelled from the spec: the documents of the JSON library, which is not part of the
  sources. An object is a list of members in the order they were added; the functions
  below are the accesses the code makes (\<^verbatim>\<open>obj[key]\<close>, the conversion to
  \<^verbatim>\<open>JsonObject\<close>, \<^verbatim>\<open>isNull\<close>, and assignment to a member).
\<close>

datatype json = JNull | JInt int | JString string | JArray "json list" | JObject "(string \<times> json) list"

text \<open>\<^verbatim>\<open>obj[key]\<close>: the member, or null when the key is absent or \<open>obj\<close> is not an object.\<close>

fun member_of :: "json \<Rightarrow> string \<Rightarrow> json" where
  "member_of (JObject ms) k = (case map_of ms k of None \<Rightarrow> JNull | Some v \<Rightarrow> v)"
| "member_of _ k = JNull"

text \<open>The conversion to \<^verbatim>\<open>JsonObject\<close> (null unless the value is an object) and its truth value.\<close>

fun as_object :: "json \<Rightarrow> json" where
  "as_object (JObject ms) = JObject ms"
| "as_object _ = JNull"

fun is_object :: "json \<Rightarrow> bool" where
  "is_object (JObject ms) = True"
| "is_object _ = False"

fun isNull :: "json \<Rightarrow> bool" where
  "isNull JNull = True"
| "isNull _ = False"

text \<open>\<^verbatim>\<open>obj[key] = v\<close>: replaces the member or appends it; nothing happens on a null object.\<close>

fun set_member :: "json \<Rightarrow> string \<Rightarrow> json \<Rightarrow> json" where
  "set_member (JObject ms) k v = JObject (AList.update k v ms)"
| "set_member j k v = j"

text \<open>
  The block repeated for the six controller fields of \<^verbatim>\<open>importConfiguration\<close>; \<open>as_uint8\<close>
  is the JSON library's conversion of a value to \<^verbatim>\<open>uint8_t\<close>, not part of the sources.
\<close>

definition import_byte :: "(json \<Rightarrow> 8 word) \<Rightarrow> json \<Rightarrow> string \<Rightarrow> 8 word \<Rightarrow> 8 word" where
  "import_byte as_uint8 obj k old =
     (if \<not> isNull (member_of obj k)
      then (let v = as_uint8 (member_of obj k) in if v > 127 then 127 else v)
      else old)"

definition import_controller :: "(json \<Rightarrow> 8 word) \<Rightarrow> json \<Rightarrow> controller_config \<Rightarrow> controller_config" where
  "import_controller as_uint8 obj c =
     (if is_object obj
      then c\<lparr>controller := import_byte as_uint8 obj ''controller'' (controller c),
             from_value := import_byte as_uint8 obj ''from'' (from_value c),
             to_value := import_byte as_uint8 obj ''to'' (to_value c)\<rparr>
      else c)"

definition import_channel :: "(json \<Rightarrow> 8 word) \<Rightarrow> json \<Rightarrow> 8 word \<Rightarrow> 8 word" where
  "import_channel as_uint8 obj old =
     (if is_object obj
      then (if \<not> isNull (member_of obj ''channel'')
            then (let c = as_uint8 (member_of obj ''channel'')
                  in if c < 1 then 0 else if c > 16 then 15 else c - 1)
            else old)
      else old)"

definition importConfiguration :: "(json \<Rightarrow> 8 word) \<Rightarrow> json \<Rightarrow> configuration \<Rightarrow> configuration" where
  "importConfiguration as_uint8 j cfg =
     cfg\<lparr>channel := import_channel as_uint8 (as_object (member_of j ''midi'')) (channel cfg),
         pedal := import_controller as_uint8 (as_object (member_of j ''pedal'')) (pedal cfg),
         poti := import_controller as_uint8 (as_object (member_of j ''potentiometer'')) (poti cfg)\<rparr>"

definition export_controller :: "controller_config \<Rightarrow> json" where
  "export_controller c =
     set_member (set_member (set_member (set_member (JObject [])
       ''#controller'' (JString ''The MIDI The MIDI controller number and value range''))
       ''controller'' (JInt (uint (controller c))))
       ''from'' (JInt (uint (from_value c))))
       ''to'' (JInt (uint (to_value c)))"

definition exportConfiguration :: "configuration \<Rightarrow> json \<Rightarrow> json" where
  "exportConfiguration cfg j =
     (let j1 = set_member j ''#midi'' (JString ''The MIDI settings'');
          json_midi = set_member (set_member (JObject [])
            ''#channel'' (JString ''The channel to send notes and control values to''))
            ''channel'' (JInt (uint (channel cfg) + 1));
          j2 = set_member j1 ''midi'' json_midi;
          j3 = set_member j2 ''pedal'' (export_controller (pedal cfg))
      in set_member j3 ''potentiometer'' (export_controller (poti cfg)))"

definition exportOutput :: "'f device \<Rightarrow> json \<Rightarrow> json" where
  "exportOutput s j =
     (let j1 = set_member j ''channel'' (JInt (uint (channel (config s))));
          c1 = set_member (set_member (set_member (JObject [])
            ''name'' (JString ''Pedal''))
            ''number'' (JInt (uint (controller (pedal (config s))))))
            ''value'' (JInt (uint (m_step_pedal s)));
          c2 = set_member (set_member (set_member (JObject [])
            ''name'' (JString ''Potentiometer''))
            ''number'' (JInt (uint (controller (poti (config s))))))
            ''value'' (JInt (uint (m_step_poti s)))
      in set_member j1 ''controllers'' (JArray [c1, c2]))"

section \<open>Fields of a document\<close>

text \<open>
  \<open>entry j g k\<close> is the value \<^verbatim>\<open>json[g][k]\<close> as \<^verbatim>\<open>importConfiguration\<close> reads it, and
  \<open>present j g k\<close> says that the field is explicitly present: the group \<open>g\<close> is an
  object and its entry \<open>k\<close> is not null.
\<close>

definition entry :: "json \<Rightarrow> string \<Rightarrow> string \<Rightarrow> json" where
  "entry j g k = member_of (as_object (member_of j g)) k"

definition present :: "json \<Rightarrow> string \<Rightarrow> string \<Rightarrow> bool" where
  "present j g k = (is_object (member_of j g) \<and> \<not> isNull (entry j g k))"

text \<open>
  What the export relies on in the library's conversion to \<^verbatim>\<open>uint8_t\<close>: an integer in
  0..255 is read as that byte.
\<close>

definition reads_bytes :: "(json \<Rightarrow> 8 word) \<Rightarrow> bool" where
  "reads_bytes as_uint8 = (\<forall>n\<in>{0..255}. as_uint8 (JInt n) = word_of_int n)"

section \<open>The specification's reading of the mapping\<close>

text \<open>
  The spec states the emitted value as \<open>from + trunc ((to - from) * fraction)\<close>;
  \<open>spec_value\<close> is that formula in exact arithmetic, written from the spec's words.
  \<open>exact_sum\<close> is the exact value of \<open>from + (to - from) * fraction\<close>, and \<open>float_sum\<close>
  is the same sum as the code evaluates it, in single precision.
\<close>

definition spec_value :: "8 word \<Rightarrow> 8 word \<Rightarrow> rat \<Rightarrow> int" where
  "spec_value frm to x = uint frm + trunc (of_int (uint to - uint frm) * x)"

definition exact_sum :: "8 word \<Rightarrow> 8 word \<Rightarrow> rat \<Rightarrow> rat" where
  "exact_sum frm to x = of_int (uint frm) + of_int (uint to - uint frm) * x"

definition float_sum :: "bool \<Rightarrow> 8 word \<Rightarrow> 8 word \<Rightarrow> rat \<Rightarrow> rat" where
  "float_sum fused frm to x =
     float_mul_add fused (of_int (uint frm)) (of_int (uint to - uint frm)) x"

section \<open>Fixtures for concrete evaluations\<close>

text \<open>
  A stand-in for the filter: its state is the fraction it reports, \<^verbatim>\<open>measure\<close> stores
  the sample unchanged and \<^verbatim>\<open>reset\<close> returns to 0.
\<close>

definition passthrough :: "bool \<Rightarrow> rat platform" where
  "passthrough fused =
     \<lparr>fp_contract = fused, getFraction = (\<lambda>f. f), pot_measure = (\<lambda>f x. x), pot_reset = (\<lambda>f. 0)\<rparr>"

text \<open>
  A device on channel 0 whose pedal maps \<open>frm\<close>..\<open>to\<close> on controller 11 and whose
  potentiometer maps 0..127 on controller 9; the pedal filter reports \<open>x\<close>, the
  potentiometer filter \<open>y\<close>; the last emitted values are \<open>a\<close> and \<open>b\<close>.
\<close>

definition example_device :: "8 word \<Rightarrow> 8 word \<Rightarrow> rat \<Rightarrow> rat \<Rightarrow> bool \<Rightarrow> 8 word \<Rightarrow> 8 word \<Rightarrow> rat device" where
  "example_device frm to x y r a b =
     \<lparr>config = \<lparr>channel = 0,
                pedal = \<lparr>controller = 11, from_value = frm, to_value = to\<rparr>,
                poti = \<lparr>controller = 9, from_value = 0, to_value = 127\<rparr>\<rparr>,
      m_pedal = x, m_reverse = r, m_poti = y,
      m_step_pedal = a, m_step_poti = b, m_measure_usec = 0, m_events_usec = 0,
      m_midi = NoPacket\<rparr>"

text \<open>One pass at clock reading \<open>t\<close>: the four readings of the clock are 10 microseconds apart.\<close>

definition example_inputs :: "32 word \<Rightarrow> rat \<Rightarrow> rat \<Rightarrow> bool \<Rightarrow> inputs" where
  "example_inputs t a b h =
     \<lparr>micros_measure_check = t, micros_measure_done = t + 10,
      micros_events_check = t + 20, micros_events_done = t + 30,
      adc_pedal = a, adc_poti = b, switch_high = h\<rparr>"

text \<open>
  A conversion to \<^verbatim>\<open>uint8_t\<close> for the examples: an integer in 0..255 is read as that
  byte, every other value as 0.
\<close>

fun json_to_uint8 :: "json \<Rightarrow> 8 word" where
  "json_to_uint8 (JInt n) = (if 0 \<le> n \<and> n \<le> 255 then word_of_int n else 0)"
| "json_to_uint8 _ = 0"

text \<open>
  A document that sets \<^verbatim>\<open>midi.channel\<close> and \<^verbatim>\<open>pedal.from\<close>, holds an explicit null for
  \<^verbatim>\<open>pedal.to\<close> and has no \<^verbatim>\<open>potentiometer\<close> key.
\<close>

definition example_document :: "int \<Rightarrow> int \<Rightarrow> json" where
  "example_document c v =
     JObject [(''midi'', JObject [(''channel'', JInt c)]),
              (''pedal'', JObject [(''from'', JInt v), (''to'', JNull)])]"

text \<open>A document in which all seven fields are present.\<close>

definition full_document :: "int \<Rightarrow> int \<Rightarrow> int \<Rightarrow> int \<Rightarrow> json" where
  "full_document c k f t =
     JObject [(''midi'', JObject [(''channel'', JInt c)]),
              (''pedal'', JObject [(''controller'', JInt k), (''from'', JInt f), (''to'', JInt t)]),
              (''potentiometer'', JObject [(''controller'', JInt f), (''from'', JInt t), (''to'', JInt k)])]"

section \<open>Rounding to single precision\<close>

lemma round_even_of_int: "round_even (of_int n) = n"
  by (simp add: round_even_def)

lemma round_even_le: "x \<le> of_int b \<Longrightarrow> round_even x \<le> b"
proof -
  assume h: "x \<le> of_int b"
  then have fl: "\<lfloor>x\<rfloor> \<le> b" by (simp add: floor_le_iff)
  show ?thesis
  proof (cases "\<lfloor>x\<rfloor> = b")
    case True
    then have "x = of_int b" using h by linarith
    then show ?thesis by (simp add: round_even_of_int)
  next
    case False
    then have "\<lfloor>x\<rfloor> + 1 \<le> b" using fl by simp
    then show ?thesis by (simp add: round_even_def Let_def)
  qed
qed

lemma round_even_ge: "of_int a \<le> x \<Longrightarrow> a \<le> round_even x"
proof -
  assume "of_int a \<le> x"
  then have "a \<le> \<lfloor>x\<rfloor>" by (simp add: le_floor_iff)
  then show ?thesis by (simp add: round_even_def Let_def)
qed


lemma f32_exponent_le: "\<bar>x\<bar> < 2 ^ n \<Longrightarrow> f32_exponent x \<le> int n - 24"
proof -
  assume h: "\<bar>x\<bar> < 2 ^ n"
  define m where "m = \<lfloor>\<bar>x\<bar> * 2 ^ 149\<rfloor>"
  have "\<bar>x\<bar> * 2 ^ 149 < 2 ^ n * 2 ^ 149" using h by simp
  also have "\<dots> = of_int (2 ^ (n + 149))" by (simp only: power_add of_int_power of_int_numeral of_int_mult)
  finally have "m < 2 ^ (n + 149)" unfolding m_def by (simp only: floor_less_iff)
  moreover have "nat (int (n + 149)) = n + 149" by simp
  ultimately have "bitlen m \<le> int (n + 149)"
    by (simp only: bitlen_le_iff_power of_nat_0_le_iff simp_thms)
  then show ?thesis unfolding f32_exponent_def m_def [symmetric] by simp
qed

lemma f32_exponent_ge: "- 149 \<le> f32_exponent x"
  by (simp add: f32_exponent_def)

lemma f32_unit_pos: "0 < (2::rat) powi e"
  by (simp add: zero_less_power_int)

lemma f32_le_grid:
  assumes "x \<le> of_int j * 2 powi (f32_exponent x)"
  shows "f32 x \<le> of_int j * 2 powi (f32_exponent x)"
proof -
  let ?u = "(2::rat) powi (f32_exponent x)"
  have u: "0 < ?u" by (rule f32_unit_pos)
  from assms u have "x / ?u \<le> of_int j" by (simp add: pos_divide_le_eq)
  then have "round_even (x / ?u) \<le> j" by (rule round_even_le)
  then have "(of_int (round_even (x / ?u)) :: rat) \<le> of_int j" by simp
  then have "of_int (round_even (x / ?u)) * ?u \<le> of_int j * ?u"
    using u by (simp only: mult_le_cancel_right_pos)
  then show ?thesis by (simp add: f32_def Let_def)
qed

lemma f32_ge_grid:
  assumes "of_int j * 2 powi (f32_exponent x) \<le> x"
  shows "of_int j * 2 powi (f32_exponent x) \<le> f32 x"
proof -
  let ?u = "(2::rat) powi (f32_exponent x)"
  have u: "0 < ?u" by (rule f32_unit_pos)
  from assms u have "of_int j \<le> x / ?u" by (simp add: pos_le_divide_eq)
  then have "j \<le> round_even (x / ?u)" by (rule round_even_ge)
  then have "(of_int j :: rat) \<le> of_int (round_even (x / ?u))" by simp
  then have "of_int j * ?u \<le> of_int (round_even (x / ?u)) * ?u"
    using u by (simp only: mult_le_cancel_right_pos)
  then show ?thesis by (simp add: f32_def Let_def)
qed

lemma on_grid:
  assumes "\<bar>x\<bar> < 2 ^ n" and "n + k \<le> 24"
  shows "\<exists>j. (of_int m / 2 ^ k :: rat) = of_int j * 2 powi (f32_exponent x)"
proof -
  define d where "d = nat (- f32_exponent x)"
  have e: "f32_exponent x \<le> int n - 24" using assms(1) by (rule f32_exponent_le)
  with assms(2) have kd: "k \<le> d" and ed: "f32_exponent x = - int d"
    by (simp_all add: d_def)
  have u: "(2::rat) powi (f32_exponent x) = 1 / 2 ^ d"
    by (simp add: ed power_int_minus field_simps)
  have "(2::rat) ^ d = 2 ^ (d - k) * 2 ^ k" using kd by (simp flip: power_add)
  then have "(of_int m / 2 ^ k :: rat) = of_int (m * 2 ^ (d - k)) * (1 / 2 ^ d)"
    by simp
  then show ?thesis unfolding u by blast
qed

lemma f32_le:
  assumes "\<bar>x\<bar> < 2 ^ n" and "n + k \<le> 24" and "x \<le> of_int m / 2 ^ k"
  shows "f32 x \<le> of_int m / 2 ^ k"
proof -
  from on_grid [OF assms(1,2)] obtain j
    where j: "(of_int m / 2 ^ k :: rat) = of_int j * 2 powi (f32_exponent x)" by blast
  from assms(3) show ?thesis unfolding j by (rule f32_le_grid)
qed

lemma f32_ge:
  assumes "\<bar>x\<bar> < 2 ^ n" and "n + k \<le> 24" and "of_int m / 2 ^ k \<le> x"
  shows "of_int m / 2 ^ k \<le> f32 x"
proof -
  from on_grid [OF assms(1,2)] obtain j
    where j: "(of_int m / 2 ^ k :: rat) = of_int j * 2 powi (f32_exponent x)" by blast
  from assms(3) show ?thesis unfolding j by (rule f32_ge_grid)
qed

lemma f32_exact:
  assumes "\<bar>of_int m / 2 ^ k :: rat\<bar> < 2 ^ n" and "n + k \<le> 24"
  shows "f32 (of_int m / 2 ^ k) = of_int m / 2 ^ k"
  using f32_le [OF assms order_refl] f32_ge [OF assms order_refl] by (rule antisym)

lemma f32_le_int: "\<bar>x\<bar> < 2 ^ 24 \<Longrightarrow> x \<le> of_int b \<Longrightarrow> f32 x \<le> of_int b"
  using f32_le [of x 24 0 b] by simp

lemma f32_ge_int: "\<bar>x\<bar> < 2 ^ 24 \<Longrightarrow> of_int a \<le> x \<Longrightarrow> of_int a \<le> f32 x"
  using f32_ge [of x 24 0 a] by simp

lemma f32_of_int: "\<bar>n\<bar> < 2 ^ 24 \<Longrightarrow> f32 (of_int n) = of_int n"
proof -
  assume "\<bar>n\<bar> < 2 ^ 24"
  then have "\<bar>of_int n / 2 ^ 0 :: rat\<bar> < 2 ^ 24"
    by (simp flip: of_int_abs add: of_int_less_numeral_power_cancel_iff del: of_int_abs)
  from f32_exact [OF this] show ?thesis by simp
qed

lemma float_of_int_exact: "\<bar>n\<bar> \<le> 255 \<Longrightarrow> float_of_int n = of_int n"
  unfolding float_of_int_def by (rule f32_of_int) simp

lemma float_mul_add_between:
  assumes lo: "of_int lo \<le> of_int a + of_int r * x" and hi: "of_int a + of_int r * x \<le> of_int hi"
    and b: "0 \<le> lo" "hi \<le> 255" "0 \<le> a" "a \<le> 255"
  shows "of_int lo \<le> float_mul_add fused (of_int a) (of_int r) x
       \<and> float_mul_add fused (of_int a) (of_int r) x \<le> of_int hi"
proof (cases fused)
  case True
  let ?y = "of_int a + of_int r * x :: rat"
  have "\<bar>?y\<bar> \<le> 255" using lo hi b by (simp add: abs_le_iff)
  then have m: "\<bar>?y\<bar> < 2 ^ 24" by simp
  from f32_ge_int [OF m lo] f32_le_int [OF m hi] True show ?thesis
    by (simp add: float_mul_add_def)
next
  case False
  let ?p = "of_int r * x :: rat"
  have plo: "of_int (lo - a) \<le> ?p" using lo by simp
  have phi: "?p \<le> of_int (hi - a)" using hi by simp
  have "\<bar>?p\<bar> \<le> 255" using lo hi b by (simp add: abs_le_iff)
  then have pm: "\<bar>?p\<bar> < 2 ^ 24" by simp
  let ?y = "of_int a + f32 ?p"
  have ylo: "of_int lo \<le> ?y" using f32_ge_int [OF pm plo] by simp
  have yhi: "?y \<le> of_int hi" using f32_le_int [OF pm phi] by simp
  have "\<bar>?y\<bar> \<le> 255" using ylo yhi b by (simp add: abs_le_iff)
  then have m: "\<bar>?y\<bar> < 2 ^ 24" by simp
  from f32_ge_int [OF m ylo] f32_le_int [OF m yhi] False show ?thesis
    by (simp add: float_mul_add_def)
qed

lemma float_to_uint8_between:
  assumes "of_int lo \<le> y" "y \<le> of_int hi" "0 \<le> lo" "hi \<le> 255"
  shows "\<exists>v. float_to_uint8 y = Some v \<and> uint v = trunc y \<and> lo \<le> uint v \<and> uint v \<le> hi"
proof -
  have y0: "0 \<le> y" using assms(1,3) by (meson of_int_0_le_iff order_trans)
  then have t: "trunc y = \<lfloor>y\<rfloor>" by (simp add: trunc_def)
  have l: "lo \<le> \<lfloor>y\<rfloor>" using assms(1) by (simp add: le_floor_iff)
  have h: "\<lfloor>y\<rfloor> \<le> hi" using assms(2) by (simp add: floor_le_iff)
  have "\<lfloor>y\<rfloor> mod 256 = \<lfloor>y\<rfloor>"
    using l h assms(3,4) by (intro mod_pos_pos_trivial) linarith+
  then have "uint (word_of_int \<lfloor>y\<rfloor> :: 8 word) = \<lfloor>y\<rfloor>"
    by (simp add: uint_word_of_int)
  moreover have "0 \<le> \<lfloor>y\<rfloor>" "\<lfloor>y\<rfloor> \<le> 255" using l h assms(3,4) by linarith+
  ultimately show ?thesis using l h unfolding float_to_uint8_def t Let_def by simp
qed

lemma sint_small: "(w :: 8 word) \<le> 127 \<Longrightarrow> sint w = uint w"
proof -
  assume "w \<le> 127"
  then have u: "uint w \<le> 127" by (simp add: word_le_def)
  have z: "0 \<le> uint w" by simp
  have "- (2 ^ 7) \<le> (0::int)" by simp
  then have "- (2 ^ 7) \<le> uint w" using z by (rule order_trans)
  moreover have "uint w < 2 ^ 7" using u by simp
  ultimately have "signed_take_bit 7 (uint w) = uint w"
    by (rule signed_take_bit_int_eq_self)
  then show ?thesis by (simp add: sint_uint)
qed

lemma cc_value_between:
  assumes v: "frm \<le> 127" "to \<le> 127"
    and lo: "of_int lo \<le> of_int (uint frm) + of_int (uint to - uint frm) * x"
    and hi: "of_int (uint frm) + of_int (uint to - uint frm) * x \<le> of_int hi"
    and b: "0 \<le> lo" "hi \<le> 255"
  shows "\<exists>v. cc_value fused frm to x = Some v
           \<and> uint v = trunc (float_mul_add fused (of_int (uint frm)) (of_int (uint to - uint frm)) x)
           \<and> lo \<le> uint v \<and> uint v \<le> hi"
proof -
  have f: "uint frm \<le> 127" and t: "uint to \<le> 127" using v by (simp_all add: word_le_def)
  have f0: "0 \<le> uint frm" and t0: "0 \<le> uint to" by simp_all
  have r: "float_of_int (sint to - sint frm) = of_int (uint to - uint frm)"
    using f t f0 t0 by (simp only: sint_small [OF v(1)] sint_small [OF v(2)]) (rule float_of_int_exact, linarith)
  have c: "float_of_int (uint frm) = of_int (uint frm)"
    using f f0 by (intro float_of_int_exact) linarith
  have a255: "uint frm \<le> 255" using f by linarith
  from float_mul_add_between [OF lo hi b f0 a255, of fused]
  have "\<exists>v. float_to_uint8 (float_mul_add fused (of_int (uint frm)) (of_int (uint to - uint frm)) x) = Some v
          \<and> uint v = trunc (float_mul_add fused (of_int (uint frm)) (of_int (uint to - uint frm)) x)
          \<and> lo \<le> uint v \<and> uint v \<le> hi"
    using b by (intro float_to_uint8_between) simp_all
  then show ?thesis unfolding cc_value_def Let_def r c .
qed

lemma affine_between:
  fixes x :: rat
  assumes "0 \<le> x" "x \<le> 1"
  shows "of_int (min a b) \<le> of_int a + of_int (b - a) * x"
    and "of_int a + of_int (b - a) * x \<le> of_int (max a b)"
proof -
  have e: "of_int a + of_int (b - a) * x = of_int a * (1 - x) + of_int b * x"
    by (simp add: algebra_simps)
  have m1: "of_int (min a b) * (1 - x) \<le> of_int a * (1 - x)"
    using assms by (intro mult_right_mono) simp_all
  have m2: "of_int (min a b) * x \<le> of_int b * x"
    using assms by (intro mult_right_mono) simp_all
  have "of_int (min a b) = of_int (min a b) * (1 - x) + of_int (min a b) * x"
    by (simp add: algebra_simps)
  then show "of_int (min a b) \<le> of_int a + of_int (b - a) * x"
    using m1 m2 unfolding e by linarith
  have n1: "of_int a * (1 - x) \<le> of_int (max a b) * (1 - x)"
    using assms by (intro mult_right_mono) simp_all
  have n2: "of_int b * x \<le> of_int (max a b) * x"
    using assms by (intro mult_right_mono) simp_all
  have "of_int (max a b) = of_int (max a b) * (1 - x) + of_int (max a b) * x"
    by (simp add: algebra_simps)
  then show "of_int a + of_int (b - a) * x \<le> of_int (max a b)"
    using n1 n2 unfolding e by linarith
qed

lemma float_mul_add_exact:
  assumes x: "x = of_int m / 2 ^ 16"
    and p: "\<bar>of_int r * x\<bar> < 2 ^ 8" and y: "\<bar>of_int a + of_int r * x\<bar> < 2 ^ 8"
  shows "float_mul_add fused (of_int a) (of_int r) x = of_int a + of_int r * x"
proof -
  have pe: "of_int r * x = (of_int (r * m) / 2 ^ 16 :: rat)" by (simp add: x)
  have ye: "of_int a + of_int r * x = (of_int (a * 2 ^ 16 + r * m) / 2 ^ 16 :: rat)"
    by (simp add: x add_divide_distrib)
  have "f32 (of_int (r * m) / 2 ^ 16) = of_int (r * m) / 2 ^ 16"
    using p unfolding pe by (intro f32_exact [where n = 8]) simp_all
  then have 1: "f32 (of_int r * x) = of_int r * x" unfolding pe .
  have "f32 (of_int (a * 2 ^ 16 + r * m) / 2 ^ 16) = of_int (a * 2 ^ 16 + r * m) / 2 ^ 16"
    using y unfolding ye by (intro f32_exact [where n = 8]) simp_all
  then have 2: "f32 (of_int a + of_int r * x) = of_int a + of_int r * x" unfolding ye .
  show ?thesis by (simp add: float_mul_add_def 1 2)
qed

section \<open>The mapped value\<close>

lemma exact_sum_range:
  assumes v: "frm \<le> 127" "to \<le> 127" and x: "0 \<le> x" "x \<le> 1"
  shows "of_int (min (uint frm) (uint to)) \<le> exact_sum frm to x"
    and "exact_sum frm to x \<le> of_int (max (uint frm) (uint to))"
    and "0 \<le> exact_sum frm to x" and "exact_sum frm to x \<le> 127"
proof -
  let ?X = "exact_sum frm to x"
  have f: "uint frm \<le> 127" and t: "uint to \<le> 127" using v by (simp_all add: word_le_def)
  have f0: "0 \<le> uint frm" and t0: "0 \<le> uint to" by simp_all
  show lo: "of_int (min (uint frm) (uint to)) \<le> ?X"
    unfolding exact_sum_def using x by (rule affine_between(1))
  show hi: "?X \<le> of_int (max (uint frm) (uint to))"
    unfolding exact_sum_def using x by (rule affine_between(2))
  have "(0::rat) \<le> of_int (min (uint frm) (uint to))" using f0 t0 by simp
  then show "0 \<le> ?X" using lo by (rule order_trans)
  have "(of_int (max (uint frm) (uint to)) :: rat) \<le> 127" using f t by simp
  with hi show "?X \<le> 127" by (rule order_trans)
qed

lemma product_small:
  assumes v: "frm \<le> (127 :: 8 word)" "to \<le> (127 :: 8 word)" and x: "0 \<le> x" "x \<le> (1::rat)"
  shows "\<bar>of_int (uint to - uint frm) * x\<bar> < 2 ^ 8"
proof -
  have f: "uint frm \<le> 127" and t: "uint to \<le> 127" using v by (simp_all add: word_le_def)
  have f0: "0 \<le> uint frm" and t0: "0 \<le> uint to" by simp_all
  have "\<bar>uint to - uint frm\<bar> \<le> 127" using f t f0 t0 by linarith
  then have r: "\<bar>of_int (uint to - uint frm) :: rat\<bar> \<le> 127"
    by (metis of_int_abs of_int_le_iff of_int_numeral)
  have "\<bar>of_int (uint to - uint frm) * x\<bar> = \<bar>of_int (uint to - uint frm) :: rat\<bar> * x"
    using x by (simp add: abs_mult)
  also have "\<dots> \<le> \<bar>of_int (uint to - uint frm)\<bar> * 1"
    using x by (intro mult_left_mono) simp_all
  also have "\<dots> \<le> 127" using r by simp
  finally show ?thesis by simp
qed

lemma cc_value_exact:
  assumes v: "frm \<le> 127" "to \<le> 127" and x: "0 \<le> x" "x \<le> 1" and g: "x * 2 ^ 16 \<in> \<int>"
  shows "float_sum fused frm to x = exact_sum frm to x"
proof -
  from g obtain m where "x * 2 ^ 16 = of_int m" unfolding Ints_def by blast
  then have xm: "x = of_int m / 2 ^ 16" by (simp add: field_simps)
  have p: "\<bar>of_int (uint to - uint frm) * x\<bar> < 2 ^ 8" using v x by (rule product_small)
  have "\<bar>exact_sum frm to x\<bar> \<le> 127"
    using exact_sum_range(3,4) [OF v x] by (simp add: abs_le_iff)
  then have y: "\<bar>of_int (uint frm) + of_int (uint to - uint frm) * x\<bar> < 2 ^ 8"
    unfolding exact_sum_def by simp
  show ?thesis unfolding float_sum_def exact_sum_def using xm p y by (rule float_mul_add_exact)
qed

lemma cc_value_range:
  assumes v: "frm \<le> 127" "to \<le> 127" and x: "0 \<le> x" "x \<le> 1"
  shows "\<exists>v. cc_value fused frm to x = Some v
           \<and> uint v = trunc (float_sum fused frm to x)
           \<and> min (uint frm) (uint to) \<le> uint v \<and> uint v \<le> max (uint frm) (uint to)
           \<and> \<lfloor>exact_sum frm to x\<rfloor> \<le> uint v \<and> uint v \<le> \<lceil>exact_sum frm to x\<rceil>
           \<and> (x * 2 ^ 16 \<in> \<int> \<longrightarrow> uint v = \<lfloor>exact_sum frm to x\<rfloor>)"
proof -
  let ?X = "exact_sum frm to x"
  note R = exact_sum_range [OF v x]
  have f: "uint frm \<le> 127" and t: "uint to \<le> 127" using v by (simp_all add: word_le_def)
  have f0: "0 \<le> uint frm" and t0: "0 \<le> uint to" by simp_all
  have mn: "0 \<le> min (uint frm) (uint to)" using f0 t0 by simp
  have mx: "max (uint frm) (uint to) \<le> 255" using f t by simp
  from cc_value_between [OF v R(1) [unfolded exact_sum_def] R(2) [unfolded exact_sum_def] mn mx, of fused]
  obtain v1 where 1: "cc_value fused frm to x = Some v1"
    and 2: "uint v1 = trunc (float_sum fused frm to x)"
    and 3: "min (uint frm) (uint to) \<le> uint v1" and 4: "uint v1 \<le> max (uint frm) (uint to)"
    unfolding float_sum_def by blast
  have fl0: "0 \<le> \<lfloor>?X\<rfloor>" using R(3) by simp
  have ce: "\<lceil>?X\<rceil> \<le> 255" using R(4) by (simp add: ceiling_le_iff)
  have a: "of_int \<lfloor>?X\<rfloor> \<le> ?X" and b: "?X \<le> of_int \<lceil>?X\<rceil>" by simp_all
  from cc_value_between [OF v a [unfolded exact_sum_def] b [unfolded exact_sum_def]
      fl0 [unfolded exact_sum_def] ce [unfolded exact_sum_def], of fused]
  obtain v2 where 5: "cc_value fused frm to x = Some v2"
    and 6: "\<lfloor>?X\<rfloor> \<le> uint v2" and 7: "uint v2 \<le> \<lceil>?X\<rceil>"
    unfolding exact_sum_def by blast
  have eq: "v2 = v1" using 1 5 by simp
  have 8: "uint v1 = \<lfloor>?X\<rfloor>" if "x * 2 ^ 16 \<in> \<int>"
    using cc_value_exact [OF v x that, of fused] 2 R(3) by (simp add: trunc_def)
  show ?thesis using 1 2 3 4 6 7 8 unfolding eq by blast
qed

lemma pedal_fraction_range:
  assumes "0 \<le> getFraction P (m_pedal s)" "getFraction P (m_pedal s) \<le> 1"
  shows "0 \<le> pedal_fraction P s \<and> pedal_fraction P s \<le> 1"
proof (cases "m_reverse s")
  case False
  with assms show ?thesis by (simp add: pedal_fraction_def)
next
  case True
  let ?d = "1 - getFraction P (m_pedal s)"
  have d: "of_int 0 \<le> ?d" "?d \<le> of_int 1" using assms by simp_all
  then have "\<bar>?d\<bar> \<le> 1" by (simp add: abs_le_iff)
  then have m: "\<bar>?d\<bar> < 2 ^ 24" by simp
  from f32_ge_int [OF m d(1)] f32_le_int [OF m d(2)] True show ?thesis
    by (simp add: pedal_fraction_def)
qed

section \<open>One evaluation\<close>

lemma poti_value_frame [simp]:
  "poti_value P (s\<lparr>m_step_pedal := v, m_midi := p\<rparr>) = poti_value P s"
  by (simp add: poti_value_def)

lemma sendEvents_Some:
  assumes pv: "pedal_value P s = Some v" and qv: "poti_value P s = Some w"
  shows "sendEvents P force s =
    Some ((if force \<or> m_step_pedal s \<noteq> v
           then [ControlChange (channel (config s)) (controller (pedal (config s))) v] else [])
          @ (if force \<or> m_step_poti s \<noteq> w
             then [ControlChange (channel (config s)) (controller (poti (config s))) w] else []),
          s\<lparr>m_step_pedal := v, m_step_poti := w,
            m_midi := (if force \<or> m_step_poti s \<noteq> w
                       then ControlChange (channel (config s)) (controller (poti (config s))) w
                       else if force \<or> m_step_pedal s \<noteq> v
                       then ControlChange (channel (config s)) (controller (pedal (config s))) v
                       else m_midi s)\<rparr>)"
proof (cases force)
  case True
  then show ?thesis using pv qv by (simp add: sendEvents_def Let_def)
next
  case False
  show ?thesis
  proof (cases "m_step_pedal s = v")
    case True
    with False pv qv show ?thesis
      by (cases "m_step_poti s = w") (simp_all add: sendEvents_def Let_def)
  next
    case ne: False
    with False pv qv show ?thesis
      by (cases "m_step_poti s = w") (simp_all add: sendEvents_def Let_def)
  qed
qed

lemma pedal_value_frame [simp]:
  "pedal_value P (s\<lparr>m_step_pedal := a, m_step_poti := b, m_midi := c\<rparr>) = pedal_value P s"
  by (simp add: pedal_value_def pedal_fraction_def)

lemma poti_value_frame3 [simp]:
  "poti_value P (s\<lparr>m_step_pedal := a, m_step_poti := b, m_midi := c\<rparr>) = poti_value P s"
  by (simp add: poti_value_def)

section \<open>Passes of the loop\<close>

lemma measure_tick_frame [simp]:
  "m_step_pedal (measure_tick P i s) = m_step_pedal s"
  "m_step_poti (measure_tick P i s) = m_step_poti s"
  "m_events_usec (measure_tick P i s) = m_events_usec s"
  "config (measure_tick P i s) = config s"
  "m_reverse (measure_tick P i s) = m_reverse s"
  by (simp_all add: measure_tick_def)

lemma read_switch_frame [simp]:
  "m_step_pedal (read_switch i s) = m_step_pedal s"
  "m_step_poti (read_switch i s) = m_step_poti s"
  "m_events_usec (read_switch i s) = m_events_usec s"
  "config (read_switch i s) = config s"
  by (simp_all add: read_switch_def Let_def)

lemma handleLoop_idle:
  "\<not> 20 * 1000 < micros_events_check i - m_events_usec s \<Longrightarrow>
   handleLoop P i s = Some ([], measure_tick P i s)"
  by (simp add: handleLoop_def Let_def)

lemma handleLoop_due:
  assumes "20 * 1000 < micros_events_check i - m_events_usec s"
    and "pedal_value P (read_switch i (measure_tick P i s)) = Some v"
    and "poti_value P (read_switch i (measure_tick P i s)) = Some w"
  shows "map_option fst (handleLoop P i s) =
     Some ((if m_step_pedal s \<noteq> v
            then [ControlChange (channel (config s)) (controller (pedal (config s))) v] else [])
         @ (if m_step_poti s \<noteq> w
            then [ControlChange (channel (config s)) (controller (poti (config s))) w] else []))"
  using assms(1) unfolding handleLoop_def Let_def sendEvents_Some [OF assms(2,3)]
  by simp

lemma run_passes_idle:
  "\<forall>j\<in>set js. \<not> 20 * 1000 < micros_events_check j - m_events_usec s \<Longrightarrow>
   \<exists>t. run_passes P js s = Some ([], t) \<and> m_step_pedal t = m_step_pedal s
      \<and> m_step_poti t = m_step_poti s \<and> m_events_usec t = m_events_usec s
      \<and> config t = config s"
proof (induction js arbitrary: s)
  case Nil
  then show ?case by simp
next
  case (Cons j js)
  let ?s1 = "measure_tick P j s"
  from Cons.prems have 1: "handleLoop P j s = Some ([], ?s1)" by (simp add: handleLoop_idle)
  from Cons.prems have "\<forall>k\<in>set js. \<not> 20 * 1000 < micros_events_check k - m_events_usec ?s1"
    by simp
  from Cons.IH [OF this] obtain t where "run_passes P js ?s1 = Some ([], t)"
    "m_step_pedal t = m_step_pedal s" "m_step_poti t = m_step_poti s"
    "m_events_usec t = m_events_usec s" "config t = config s" by auto
  then show ?case using 1 by simp
qed

lemma handleReset_fields [simp]:
  "m_step_pedal (handleReset P now s) = 0"
  "m_step_poti (handleReset P now s) = 0"
  "m_events_usec (handleReset P now s) = now"
  "m_reverse (handleReset P now s) = False"
  "config (handleReset P now s) = config s"
  by (simp_all add: handleReset_def)

section \<open>Import and export\<close>

lemma as_object_id: "is_object j \<Longrightarrow> as_object j = j"
  by (cases j) simp_all

lemma is_object_as_object [simp]: "is_object (as_object j) = is_object j"
  by (cases j) simp_all

lemma import_controller_field:
  "controller (import_controller cv (as_object (member_of j g)) c) =
     (if present j g ''controller''
      then (if 127 < cv (entry j g ''controller'') then 127 else cv (entry j g ''controller''))
      else controller c)"
  "from_value (import_controller cv (as_object (member_of j g)) c) =
     (if present j g ''from''
      then (if 127 < cv (entry j g ''from'') then 127 else cv (entry j g ''from''))
      else from_value c)"
  "to_value (import_controller cv (as_object (member_of j g)) c) =
     (if present j g ''to''
      then (if 127 < cv (entry j g ''to'') then 127 else cv (entry j g ''to''))
      else to_value c)"
  by (simp_all add: import_controller_def import_byte_def present_def entry_def Let_def)

lemma import_channel_field:
  "import_channel cv (as_object (member_of j ''midi'')) old =
     (if present j ''midi'' ''channel''
      then (if cv (entry j ''midi'' ''channel'') < 1 then 0
            else if 16 < cv (entry j ''midi'' ''channel'') then 15
            else cv (entry j ''midi'' ''channel'') - 1)
      else old)"
  by (simp add: import_channel_def present_def entry_def Let_def)

lemma member_of_set_member:
  "is_object j \<Longrightarrow> member_of (set_member j k v) k' = (if k' = k then v else member_of j k')"
  by (cases j) (simp_all add: update_conv')

lemma is_object_set_member [simp]: "is_object (set_member j k v) = is_object j"
  by (cases j) simp_all

lemma export_controller_members:
  "is_object (export_controller c)"
  "member_of (export_controller c) ''controller'' = JInt (uint (controller c))"
  "member_of (export_controller c) ''from'' = JInt (uint (from_value c))"
  "member_of (export_controller c) ''to'' = JInt (uint (to_value c))"
  by (simp_all add: export_controller_def update_conv')

lemma exportConfiguration_members:
  assumes "is_object j"
  shows "member_of (exportConfiguration cfg j) ''midi'' =
           set_member (set_member (JObject [])
             ''#channel'' (JString ''The channel to send notes and control values to''))
             ''channel'' (JInt (uint (channel cfg) + 1))"
    and "member_of (exportConfiguration cfg j) ''pedal'' = export_controller (pedal cfg)"
    and "member_of (exportConfiguration cfg j) ''potentiometer'' = export_controller (poti cfg)"
  using assms by (simp_all add: exportConfiguration_def Let_def member_of_set_member)

lemma exported_channel:
  "is_object j \<Longrightarrow> entry (exportConfiguration cfg j) ''midi'' ''channel'' = JInt (uint (channel cfg) + 1)"
  by (simp add: entry_def exportConfiguration_members update_conv')

lemma exported_present:
  assumes "is_object j"
  shows "present (exportConfiguration cfg j) ''midi'' ''channel''"
    and "present (exportConfiguration cfg j) ''pedal'' ''controller''"
    and "present (exportConfiguration cfg j) ''pedal'' ''from''"
    and "present (exportConfiguration cfg j) ''pedal'' ''to''"
    and "present (exportConfiguration cfg j) ''potentiometer'' ''controller''"
    and "present (exportConfiguration cfg j) ''potentiometer'' ''from''"
    and "present (exportConfiguration cfg j) ''potentiometer'' ''to''"
  using assms
  by (simp_all add: present_def entry_def exportConfiguration_members export_controller_members
      as_object_id update_conv')

lemma exported_entries:
  assumes "is_object j"
  shows "entry (exportConfiguration cfg j) ''pedal'' ''controller'' = JInt (uint (controller (pedal cfg)))"
    and "entry (exportConfiguration cfg j) ''pedal'' ''from'' = JInt (uint (from_value (pedal cfg)))"
    and "entry (exportConfiguration cfg j) ''pedal'' ''to'' = JInt (uint (to_value (pedal cfg)))"
    and "entry (exportConfiguration cfg j) ''potentiometer'' ''controller'' = JInt (uint (controller (poti cfg)))"
    and "entry (exportConfiguration cfg j) ''potentiometer'' ''from'' = JInt (uint (from_value (poti cfg)))"
    and "entry (exportConfiguration cfg j) ''potentiometer'' ''to'' = JInt (uint (to_value (poti cfg)))"
  using assms
  by (simp_all add: entry_def exportConfiguration_members export_controller_members as_object_id)

lemma reads_bytes_uint:
  "reads_bytes cv \<Longrightarrow> cv (JInt (uint (w :: 8 word))) = w"
proof -
  assume r: "reads_bytes cv"
  have "uint w < 2 ^ LENGTH(8)" by (rule uint_lt2p)
  then have "uint w \<in> {0..255}" by simp
  with r have "cv (JInt (uint w)) = word_of_int (uint w)" unfolding reads_bytes_def by blast
  then show ?thesis by simp
qed

lemma reads_bytes_succ:
  assumes r: "reads_bytes cv" and c: "(w :: 8 word) \<le> 15"
  shows "cv (JInt (uint w + 1)) = w + 1"
proof -
  from c have "uint w \<le> 15" by (simp add: word_le_def)
  moreover have "0 \<le> uint w" by simp
  ultimately have "uint w + 1 \<in> {0..255}" by simp
  with r have "cv (JInt (uint w + 1)) = word_of_int (uint w + 1)" unfolding reads_bytes_def by blast
  then show ?thesis by simp
qed

lemma channel_round_trip:
  assumes "(w :: 8 word) \<le> 15"
  shows "\<not> w + 1 < 1" and "\<not> 16 < w + 1" and "w + 1 - 1 = w"
proof -
  from assms have u: "uint w \<le> 15" by (simp add: word_le_def)
  have z: "0 \<le> uint w" by simp
  have s: "uint (w + 1) = uint w + 1"
    using u z by (simp add: uint_word_ariths) 
  show "\<not> w + 1 < 1" using s z by (simp add: word_less_def)
  show "\<not> 16 < w + 1" using s u by (simp add: word_less_def)
  show "w + 1 - 1 = w" by simp
qed

section \<open>The fixtures, evaluated\<close>

lemma example_device_simps [simp]:
  "config (example_device frm to x y r a b) =
     \<lparr>channel = 0, pedal = \<lparr>controller = 11, from_value = frm, to_value = to\<rparr>,
      poti = \<lparr>controller = 9, from_value = 0, to_value = 127\<rparr>\<rparr>"
  "m_pedal (example_device frm to x y r a b) = x"
  "m_poti (example_device frm to x y r a b) = y"
  "m_reverse (example_device frm to x y r a b) = r"
  "m_step_pedal (example_device frm to x y r a b) = a"
  "m_step_poti (example_device frm to x y r a b) = b"
  "m_midi (example_device frm to x y r a b) = NoPacket"
  by (simp_all add: example_device_def)

lemma passthrough_simps [simp]:
  "getFraction (passthrough c) f = f"
  "fp_contract (passthrough c) = c"
  by (simp_all add: passthrough_def)

lemma example_inputs_simps [simp]:
  "micros_measure_check (example_inputs t a b h) = t"
  "micros_measure_done (example_inputs t a b h) = t + 10"
  "micros_events_check (example_inputs t a b h) = t + 20"
  "micros_events_done (example_inputs t a b h) = t + 30"
  "adc_pedal (example_inputs t a b h) = a"
  "adc_poti (example_inputs t a b h) = b"
  "switch_high (example_inputs t a b h) = h"
  by (simp_all add: example_inputs_def)

lemma ex_values:
  "pedal_value (passthrough False) (example_device 0 127 (1 / 2) (1 / 4) False a b) = Some 63"
  "poti_value (passthrough False) (example_device 0 127 (1 / 2) (1 / 4) False a b) = Some 31"
proof -
  have 1: "cc_value False 0 127 (1 / 2) = Some 63" by code_simp
  have 2: "cc_value False 0 127 (1 / 4) = Some 31" by code_simp
  show "pedal_value (passthrough False) (example_device 0 127 (1 / 2) (1 / 4) False a b) = Some 63"
    by (simp add: pedal_value_def pedal_fraction_def 1)
  show "poti_value (passthrough False) (example_device 0 127 (1 / 2) (1 / 4) False a b) = Some 31"
    by (simp add: poti_value_def 2)
qed

lemma ex_pedal_rev: "pedal_fraction (passthrough False) (example_device 127 0 (1 / 2) (1 / 4) True 0 0) = 1 / 2"
  by code_simp

lemma example_document_present:
  "present (example_document c v) ''midi'' ''channel''"
  "present (example_document c v) ''pedal'' ''from''"
  "\<not> present (example_document c v) ''pedal'' ''controller''"
  "\<not> present (example_document c v) ''pedal'' ''to''"
  "\<not> present (example_document c v) ''potentiometer'' ''controller''"
  "\<not> present (example_document c v) ''potentiometer'' ''from''"
  "\<not> present (example_document c v) ''potentiometer'' ''to''"
  "\<not> present (JObject []) ''midi'' ''channel''"
  by (simp_all add: present_def entry_def example_document_def)

lemma example_document_entry:
  "entry (example_document c v) ''midi'' ''channel'' = JInt c"
  "entry (example_document c v) ''pedal'' ''from'' = JInt v"
  by (simp_all add: entry_def example_document_def)

lemma full_document_present:
  "present (full_document c k f t) ''midi'' ''channel''"
  "present (full_document c k f t) ''pedal'' ''controller''"
  "present (full_document c k f t) ''pedal'' ''from''"
  "present (full_document c k f t) ''pedal'' ''to''"
  "present (full_document c k f t) ''potentiometer'' ''controller''"
  "present (full_document c k f t) ''potentiometer'' ''from''"
  "present (full_document c k f t) ''potentiometer'' ''to''"
  by (simp_all add: present_def entry_def full_document_def)

lemma full_document_entry:
  "entry (full_document c k f t) ''midi'' ''channel'' = JInt c"
  "entry (full_document c k f t) ''pedal'' ''controller'' = JInt k"
  "entry (full_document c k f t) ''pedal'' ''from'' = JInt f"
  "entry (full_document c k f t) ''pedal'' ''to'' = JInt t"
  "entry (full_document c k f t) ''potentiometer'' ''controller'' = JInt f"
  "entry (full_document c k f t) ''potentiometer'' ''from'' = JInt t"
  "entry (full_document c k f t) ''potentiometer'' ''to'' = JInt k"
  by (simp_all add: entry_def full_document_def)

lemma empty_document_absent: "\<not> present (JObject []) g k"
  by (simp add: present_def)

lemma reads_bytes_json_to_uint8: "reads_bytes json_to_uint8"
  by (simp add: reads_bytes_def)

section \<open>The claims\<close>

text \<open>
  C1 (amended). For every configuration with \<open>from\<close> and \<open>to\<close> in 0..127 and filter
  fractions in \<open>[0, 1]\<close>, both values of an evaluation are defined, and each is the
  single-precision sum \<open>from + (to - from) * fraction\<close> truncated towards zero as a whole:
  the truncation applies to the sum, not to the product alone. The value lies between
  \<open>min from to\<close> and \<open>max from to\<close>, it is one of the two integers next to the exact sum,
  and it is the floor of the exact sum whenever the fraction is a multiple of \<open>2 ^ - 16\<close>
  (all float operations are exact then). This holds with and without contraction of the
  multiply-add, and for the pedal also when the reverse flag is set.
\<close>

theorem mapped_value_truncates_sum:
  fixes P :: "'f platform" and s :: "'f device"
  defines "pc \<equiv> pedal (config s)" and "qc \<equiv> poti (config s)"
    and "x \<equiv> pedal_fraction P s" and "y \<equiv> getFraction P (m_poti s)"
  assumes "from_value pc \<le> 127" "to_value pc \<le> 127" "from_value qc \<le> 127" "to_value qc \<le> 127"
    and "0 \<le> getFraction P (m_pedal s)" "getFraction P (m_pedal s) \<le> 1" "0 \<le> y" "y \<le> 1"
  shows "\<exists>v w. pedal_value P s = Some v \<and> poti_value P s = Some w
     \<and> uint v = trunc (float_sum (fp_contract P) (from_value pc) (to_value pc) x)
     \<and> min (uint (from_value pc)) (uint (to_value pc)) \<le> uint v
     \<and> uint v \<le> max (uint (from_value pc)) (uint (to_value pc))
     \<and> \<lfloor>exact_sum (from_value pc) (to_value pc) x\<rfloor> \<le> uint v
     \<and> uint v \<le> \<lceil>exact_sum (from_value pc) (to_value pc) x\<rceil>
     \<and> (x * 2 ^ 16 \<in> \<int> \<longrightarrow> uint v = \<lfloor>exact_sum (from_value pc) (to_value pc) x\<rfloor>)
     \<and> uint w = trunc (float_sum (fp_contract P) (from_value qc) (to_value qc) y)
     \<and> min (uint (from_value qc)) (uint (to_value qc)) \<le> uint w
     \<and> uint w \<le> max (uint (from_value qc)) (uint (to_value qc))
     \<and> \<lfloor>exact_sum (from_value qc) (to_value qc) y\<rfloor> \<le> uint w
     \<and> uint w \<le> \<lceil>exact_sum (from_value qc) (to_value qc) y\<rceil>
     \<and> (y * 2 ^ 16 \<in> \<int> \<longrightarrow> uint w = \<lfloor>exact_sum (from_value qc) (to_value qc) y\<rfloor>)"
proof -
  have x: "0 \<le> x" "x \<le> 1" unfolding x_def using pedal_fraction_range [OF assms(9,10)] by blast+
  from cc_value_range [OF assms(5,6) x, of "fp_contract P"]
  obtain v where v: "cc_value (fp_contract P) (from_value pc) (to_value pc) x = Some v
     \<and> uint v = trunc (float_sum (fp_contract P) (from_value pc) (to_value pc) x)
     \<and> min (uint (from_value pc)) (uint (to_value pc)) \<le> uint v
     \<and> uint v \<le> max (uint (from_value pc)) (uint (to_value pc))
     \<and> \<lfloor>exact_sum (from_value pc) (to_value pc) x\<rfloor> \<le> uint v
     \<and> uint v \<le> \<lceil>exact_sum (from_value pc) (to_value pc) x\<rceil>
     \<and> (x * 2 ^ 16 \<in> \<int> \<longrightarrow> uint v = \<lfloor>exact_sum (from_value pc) (to_value pc) x\<rfloor>)" ..
  from cc_value_range [OF assms(7,8,11,12), of "fp_contract P"]
  obtain w where w: "cc_value (fp_contract P) (from_value qc) (to_value qc) y = Some w
     \<and> uint w = trunc (float_sum (fp_contract P) (from_value qc) (to_value qc) y)
     \<and> min (uint (from_value qc)) (uint (to_value qc)) \<le> uint w
     \<and> uint w \<le> max (uint (from_value qc)) (uint (to_value qc))
     \<and> \<lfloor>exact_sum (from_value qc) (to_value qc) y\<rfloor> \<le> uint w
     \<and> uint w \<le> \<lceil>exact_sum (from_value qc) (to_value qc) y\<rceil>
     \<and> (y * 2 ^ 16 \<in> \<int> \<longrightarrow> uint w = \<lfloor>exact_sum (from_value qc) (to_value qc) y\<rfloor>)" ..
  have pv: "pedal_value P s = Some v" using v by (simp add: pedal_value_def pc_def x_def)
  have qv: "poti_value P s = Some w" using w by (simp add: poti_value_def qc_def y_def)
  from pv qv v w show ?thesis by blast
qed

text \<open>
  At \<open>from = 127\<close>, \<open>to = 0\<close> with the reverse flag set and both filters in range, the
  theorem fixes the two values: 63 for the pedal at one half, 31 for the potentiometer
  at one quarter of 0..127.
\<close>

theorem mapped_value_truncates_sum_witness:
  "from_value (pedal (config (example_device 127 0 (1 / 2) (1 / 4) True 0 0))) \<le> 127
   \<and> to_value (pedal (config (example_device 127 0 (1 / 2) (1 / 4) True 0 0))) \<le> 127
   \<and> from_value (poti (config (example_device 127 0 (1 / 2) (1 / 4) True 0 0))) \<le> 127
   \<and> to_value (poti (config (example_device 127 0 (1 / 2) (1 / 4) True 0 0))) \<le> 127
   \<and> 0 \<le> getFraction (passthrough False) (m_pedal (example_device 127 0 (1 / 2) (1 / 4) True 0 0))
   \<and> getFraction (passthrough False) (m_pedal (example_device 127 0 (1 / 2) (1 / 4) True 0 0)) \<le> 1
   \<and> 0 \<le> getFraction (passthrough False) (m_poti (example_device 127 0 (1 / 2) (1 / 4) True 0 0))
   \<and> getFraction (passthrough False) (m_poti (example_device 127 0 (1 / 2) (1 / 4) True 0 0)) \<le> 1
   \<and> pedal_fraction (passthrough False) (example_device 127 0 (1 / 2) (1 / 4) True 0 0) * 2 ^ 16 \<in> \<int>
   \<and> getFraction (passthrough False) (m_poti (example_device 127 0 (1 / 2) (1 / 4) True 0 0)) * 2 ^ 16 \<in> \<int>
   \<and> pedal_value (passthrough False) (example_device 127 0 (1 / 2) (1 / 4) True 0 0) = Some 63
   \<and> poti_value (passthrough False) (example_device 127 0 (1 / 2) (1 / 4) True 0 0) = Some 31"
proof -
  let ?P = "passthrough False" and ?s = "example_device 127 0 (1 / 2) (1 / 4) True 0 0"
  have h: "from_value (pedal (config ?s)) \<le> 127" "to_value (pedal (config ?s)) \<le> 127"
    "from_value (poti (config ?s)) \<le> 127" "to_value (poti (config ?s)) \<le> 127"
    "0 \<le> getFraction ?P (m_pedal ?s)" "getFraction ?P (m_pedal ?s) \<le> 1"
    "0 \<le> getFraction ?P (m_poti ?s)" "getFraction ?P (m_poti ?s) \<le> 1"
    by simp_all
  have c: "from_value (pedal (config ?s)) = 127" "to_value (pedal (config ?s)) = 0"
    "from_value (poti (config ?s)) = 0" "to_value (poti (config ?s)) = 127"
    "getFraction ?P (m_poti ?s) = 1 / 4"
    by simp_all
  have e: "\<lfloor>exact_sum 127 0 (1 / 2)\<rfloor> = 63" "\<lfloor>exact_sum 0 127 (1 / 4)\<rfloor> = 31"
    by code_simp+
  have i: "(1 / 2 :: rat) * 2 ^ 16 \<in> \<int>" "(1 / 4 :: rat) * 2 ^ 16 \<in> \<int>" by simp_all
  from mapped_value_truncates_sum [OF h] obtain v w where
    "pedal_value ?P ?s = Some v" "poti_value ?P ?s = Some w"
    "uint v = 63" "uint w = 31"
    unfolding c ex_pedal_rev using e i by auto
  moreover from this have "v = 63" "w = 31" by (simp_all add: word_uint_eq_iff)
  ultimately show ?thesis using h i unfolding c ex_pedal_rev by simp
qed

text \<open>
  The formula of the spec fails on an inverted range: with \<open>from = 127\<close>, \<open>to = 0\<close> and
  the fraction one half, the range is \<open>- 127\<close>, the product \<open>- 63.5\<close> and the sum
  \<open>63.5\<close>, all exact in single precision; the code emits 63, with or without
  contraction, where \<open>from + trunc ((to - from) * fraction)\<close> is \<open>127 - 63 = 64\<close>.
\<close>

theorem mapped_value_not_spec_formula:
  "map_option fst (sendEvents (passthrough False) True (example_device 127 0 (1 / 2) (1 / 4) False 0 0))
     = Some [ControlChange 0 11 63, ControlChange 0 9 31]
   \<and> map_option fst (sendEvents (passthrough True) True (example_device 127 0 (1 / 2) (1 / 4) False 0 0))
     = Some [ControlChange 0 11 63, ControlChange 0 9 31]
   \<and> spec_value 127 0 (1 / 2) = 64
   \<and> uint (63 :: 8 word) \<noteq> spec_value 127 0 (1 / 2)"
proof -
  let ?s = "example_device 127 0 (1 / 2) (1 / 4) False 0 0"
  have 1: "pedal_value (passthrough False) ?s = Some 63" by code_simp
  have 2: "poti_value (passthrough False) ?s = Some 31" by code_simp
  have 3: "pedal_value (passthrough True) ?s = Some 63" by code_simp
  have 4: "poti_value (passthrough True) ?s = Some 31" by code_simp
  have 5: "spec_value 127 0 (1 / 2) = 64" by code_simp
  have c: "channel (config ?s) = 0" "controller (pedal (config ?s)) = 11"
    "controller (poti (config ?s)) = 9"
    by (simp_all add: example_device_def)
  show ?thesis
    unfolding sendEvents_Some [OF 1 2] sendEvents_Some [OF 3 4] c using 5 by simp
qed

text \<open>
  Rounding alone can also move the value: from 126 to 127 at the largest fraction below
  1, the sum \<open>126.99999994\<close> rounds to \<open>127.0\<close> in single precision and the value is
  127, one above the floor of the exact sum. The theorem above allows for it.
\<close>

lemma mapped_value_rounds_up_below_one:
  "f32 (16777215 / 2 ^ 24) = 16777215 / 2 ^ 24
   \<and> cc_value False 126 127 (16777215 / 2 ^ 24) = Some 127
   \<and> cc_value True 126 127 (16777215 / 2 ^ 24) = Some 127
   \<and> \<lfloor>exact_sum 126 127 (16777215 / 2 ^ 24)\<rfloor> = 126"
proof -
  have 1: "f32 (16777215 / 2 ^ 24) = 16777215 / 2 ^ 24" by code_simp
  have 2: "cc_value False 126 127 (16777215 / 2 ^ 24) = Some 127" by code_simp
  have 3: "cc_value True 126 127 (16777215 / 2 ^ 24) = Some 127" by code_simp
  have 4: "\<lfloor>exact_sum 126 127 (16777215 / 2 ^ 24)\<rfloor> = 126" by code_simp
  from 1 2 3 4 show ?thesis by blast
qed

text \<open>
  C2 (amended). A reset clears both last-emitted values to 0 and leaves nothing that
  would force the next evaluation. The passes of the loop that follow a reset while the
  event tick is not yet due emit nothing and keep both values at 0; the first event tick
  is an evaluation without force: it emits the Control Change of an input exactly when
  the value computed for it differs from 0.
\<close>

theorem first_tick_after_reset_detects_change:
  assumes idle: "\<forall>j\<in>set js. \<not> 20 * 1000 < micros_events_check j - now"
    and due: "20 * 1000 < micros_events_check i - now"
  shows "\<exists>t. run_passes P js (handleReset P now s) = Some ([], t)
     \<and> m_step_pedal t = 0 \<and> m_step_poti t = 0
     \<and> (\<forall>v w. pedal_value P (read_switch i (measure_tick P i t)) = Some v
             \<and> poti_value P (read_switch i (measure_tick P i t)) = Some w \<longrightarrow>
           map_option fst (handleLoop P i t) =
             Some ((if v \<noteq> 0
                    then [ControlChange (channel (config s)) (controller (pedal (config s))) v] else [])
                 @ (if w \<noteq> 0
                    then [ControlChange (channel (config s)) (controller (poti (config s))) w] else [])))"
proof -
  let ?s0 = "handleReset P now s"
  from idle have "\<forall>j\<in>set js. \<not> 20 * 1000 < micros_events_check j - m_events_usec ?s0" by simp
  from run_passes_idle [OF this, of P] obtain t where t: "run_passes P js ?s0 = Some ([], t)"
    "m_step_pedal t = 0" "m_step_poti t = 0" "m_events_usec t = now" "config t = config s"
    by auto
  have "map_option fst (handleLoop P i t) =
             Some ((if v \<noteq> 0
                    then [ControlChange (channel (config s)) (controller (pedal (config s))) v] else [])
                 @ (if w \<noteq> 0
                    then [ControlChange (channel (config s)) (controller (poti (config s))) w] else []))"
    if "pedal_value P (read_switch i (measure_tick P i t)) = Some v"
      and "poti_value P (read_switch i (measure_tick P i t)) = Some w" for v w
  proof -
    from due have d: "20 * 1000 < micros_events_check i - m_events_usec t" by (simp add: t(4))
    have z: "(0 \<noteq> v) = (v \<noteq> 0)" "(0 \<noteq> w) = (w \<noteq> 0)" by auto
    from handleLoop_due [OF d that] show ?thesis unfolding t(2,3,5) z .
  qed
  with t show ?thesis by blast
qed

text \<open>
  A reset at clock 1000, one pass at 5000 (no event tick) and the pass at 30000 with the
  pedal at one half and the potentiometer at rest: the computed values are 63 and 0, and
  only the pedal's 63 is emitted.
\<close>

theorem first_tick_after_reset_detects_change_witness:
  "\<not> 20 * 1000 < micros_events_check (example_inputs 5000 (1 / 2) (1 / 2) True) - 1000
   \<and> 20 * 1000 < micros_events_check (example_inputs 30000 (1 / 2) 1 True) - 1000
   \<and> (\<exists>t. run_passes (passthrough False) [example_inputs 5000 (1 / 2) (1 / 2) True]
              (handleReset (passthrough False) 1000 (example_device 0 127 (1 / 2) (1 / 2) True 5 7))
            = Some ([], t)
        \<and> pedal_value (passthrough False)
             (read_switch (example_inputs 30000 (1 / 2) 1 True)
               (measure_tick (passthrough False) (example_inputs 30000 (1 / 2) 1 True) t)) = Some 63
        \<and> poti_value (passthrough False)
             (read_switch (example_inputs 30000 (1 / 2) 1 True)
               (measure_tick (passthrough False) (example_inputs 30000 (1 / 2) 1 True) t)) = Some 0
        \<and> map_option fst (handleLoop (passthrough False) (example_inputs 30000 (1 / 2) 1 True) t)
            = Some [ControlChange 0 11 63])"
proof -
  let ?P = "passthrough False" and ?j = "example_inputs 5000 (1 / 2) (1 / 2) True"
  let ?i = "example_inputs 30000 (1 / 2) 1 True"
  let ?s0 = "handleReset (passthrough False) 1000 (example_device 0 127 (1 / 2) (1 / 2) True 5 7)"
  have idle: "\<forall>j\<in>set [?j]. \<not> 20 * 1000 < micros_events_check j - 1000" by simp
  have due: "20 * 1000 < micros_events_check ?i - 1000" by simp
  have r: "run_passes ?P [?j] ?s0 = Some ([], measure_tick ?P ?j ?s0)"
    by (simp add: handleLoop_idle)
  have 1: "pedal_value ?P (read_switch ?i (measure_tick ?P ?i (measure_tick ?P ?j ?s0))) = Some 63"
    by code_simp
  have 2: "poti_value ?P (read_switch ?i (measure_tick ?P ?i (measure_tick ?P ?j ?s0))) = Some 0"
    by code_simp
  from first_tick_after_reset_detects_change [OF idle due, of ?P "example_device 0 127 (1 / 2) (1 / 2) True 5 7"]
  obtain t where t: "run_passes ?P [?j] ?s0 = Some ([], t)"
    and a: "\<forall>v w. pedal_value ?P (read_switch ?i (measure_tick ?P ?i t)) = Some v
             \<and> poti_value ?P (read_switch ?i (measure_tick ?P ?i t)) = Some w \<longrightarrow>
           map_option fst (handleLoop ?P ?i t) =
             Some ((if v \<noteq> 0
                    then [ControlChange (channel (config (example_device 0 127 (1 / 2) (1 / 2) True 5 7)))
                      (controller (pedal (config (example_device 0 127 (1 / 2) (1 / 2) True 5 7)))) v] else [])
                 @ (if w \<noteq> 0
                    then [ControlChange (channel (config (example_device 0 127 (1 / 2) (1 / 2) True 5 7)))
                      (controller (poti (config (example_device 0 127 (1 / 2) (1 / 2) True 5 7)))) w] else []))"
    by blast
  from t r have e: "t = measure_tick ?P ?j ?s0" by simp
  from a [rule_format, of 63 0] 1 2 have "map_option fst (handleLoop ?P ?i t) = Some [ControlChange 0 11 63]"
    unfolding e by simp
  moreover have "\<not> 20 * 1000 < micros_events_check ?j - 1000" by simp
  ultimately show ?thesis using t due 1 2 unfolding e by blast
qed

text \<open>
  Both inputs at rest after a reset: the event tick is due in the pass at clock 30000,
  both computed values are 0, equal to the cleared last-emitted values, and the pass
  emits nothing.
\<close>

theorem first_tick_after_reset_not_forced:
  "20 * 1000 < micros_events_check (example_inputs 30000 0 1 True)
       - m_events_usec (handleReset (passthrough False) 1000 (example_device 0 127 (1 / 2) (1 / 2) True 5 7))
   \<and> map_option fst (handleLoop (passthrough False) (example_inputs 30000 0 1 True)
        (handleReset (passthrough False) 1000 (example_device 0 127 (1 / 2) (1 / 2) True 5 7)))
     = Some []"
proof -
  let ?P = "passthrough False" and ?i = "example_inputs 30000 0 1 True"
  let ?s0 = "handleReset (passthrough False) 1000 (example_device 0 127 (1 / 2) (1 / 2) True 5 7)"
  have d: "20 * 1000 < micros_events_check ?i - m_events_usec ?s0" by simp
  have 1: "pedal_value ?P (read_switch ?i (measure_tick ?P ?i ?s0)) = Some 0" by code_simp
  have 2: "poti_value ?P (read_switch ?i (measure_tick ?P ?i ?s0)) = Some 0" by code_simp
  from handleLoop_due [OF d 1 2] d show ?thesis by simp
qed

text \<open>
  C3. For every imported document, with every value taken as the library's conversion
  to an 8-bit unsigned value delivers it: a present \<^verbatim>\<open>midi.channel\<close> below 1 stores
  channel 0, above 16 stores 15, and a value in 1..16 stores the value minus 1; each
  present \<^verbatim>\<open>controller\<close>, \<^verbatim>\<open>from\<close> and \<^verbatim>\<open>to\<close> field of \<^verbatim>\<open>pedal\<close> and
  \<^verbatim>\<open>potentiometer\<close> stores 127 when above 127 and the value itself otherwise.
\<close>

theorem import_clamps_present_fields:
  "(present j ''midi'' ''channel'' \<longrightarrow>
      channel (importConfiguration cv j cfg) =
        (if cv (entry j ''midi'' ''channel'') < 1 then 0
         else if 16 < cv (entry j ''midi'' ''channel'') then 15
         else cv (entry j ''midi'' ''channel'') - 1))
   \<and> (present j ''pedal'' ''controller'' \<longrightarrow>
      controller (pedal (importConfiguration cv j cfg)) =
        (if 127 < cv (entry j ''pedal'' ''controller'') then 127 else cv (entry j ''pedal'' ''controller'')))
   \<and> (present j ''pedal'' ''from'' \<longrightarrow>
      from_value (pedal (importConfiguration cv j cfg)) =
        (if 127 < cv (entry j ''pedal'' ''from'') then 127 else cv (entry j ''pedal'' ''from'')))
   \<and> (present j ''pedal'' ''to'' \<longrightarrow>
      to_value (pedal (importConfiguration cv j cfg)) =
        (if 127 < cv (entry j ''pedal'' ''to'') then 127 else cv (entry j ''pedal'' ''to'')))
   \<and> (present j ''potentiometer'' ''controller'' \<longrightarrow>
      controller (poti (importConfiguration cv j cfg)) =
        (if 127 < cv (entry j ''potentiometer'' ''controller'') then 127
         else cv (entry j ''potentiometer'' ''controller'')))
   \<and> (present j ''potentiometer'' ''from'' \<longrightarrow>
      from_value (poti (importConfiguration cv j cfg)) =
        (if 127 < cv (entry j ''potentiometer'' ''from'') then 127
         else cv (entry j ''potentiometer'' ''from'')))
   \<and> (present j ''potentiometer'' ''to'' \<longrightarrow>
      to_value (poti (importConfiguration cv j cfg)) =
        (if 127 < cv (entry j ''potentiometer'' ''to'') then 127
         else cv (entry j ''potentiometer'' ''to'')))"
proof -
  let ?r = "importConfiguration cv j cfg"
  have c: "channel ?r = import_channel cv (as_object (member_of j ''midi'')) (channel cfg)"
    by (simp add: importConfiguration_def)
  have p: "pedal ?r = import_controller cv (as_object (member_of j ''pedal'')) (pedal cfg)"
    by (simp add: importConfiguration_def)
  have q: "poti ?r = import_controller cv (as_object (member_of j ''potentiometer'')) (poti cfg)"
    by (simp add: importConfiguration_def)
  show ?thesis
    unfolding c p q import_channel_field import_controller_field by simp
qed

text \<open>
  A document with all seven fields present, four of them out of range: channel 99 stores
  15, the values 200 and 128 store 127 and the value 64 is stored as it is. The other
  examples of the spec: channel 0 stores 0, channel 5 stores 4 and \<^verbatim>\<open>pedal.from\<close> 200
  stores 127.
\<close>

theorem import_clamps_present_fields_witness:
  "present (full_document 99 200 64 128) ''midi'' ''channel''
   \<and> present (full_document 99 200 64 128) ''pedal'' ''controller''
   \<and> present (full_document 99 200 64 128) ''pedal'' ''from''
   \<and> present (full_document 99 200 64 128) ''pedal'' ''to''
   \<and> present (full_document 99 200 64 128) ''potentiometer'' ''controller''
   \<and> present (full_document 99 200 64 128) ''potentiometer'' ''from''
   \<and> present (full_document 99 200 64 128) ''potentiometer'' ''to''
   \<and> importConfiguration json_to_uint8 (full_document 99 200 64 128)
        (config (example_device 10 20 0 0 False 0 0))
       = \<lparr>channel = 15, pedal = \<lparr>controller = 127, from_value = 64, to_value = 127\<rparr>,
          poti = \<lparr>controller = 64, from_value = 127, to_value = 127\<rparr>\<rparr>
   \<and> channel (importConfiguration json_to_uint8 (example_document 0 200)
        (config (example_device 10 20 0 0 False 0 0))) = 0
   \<and> channel (importConfiguration json_to_uint8 (example_document 5 64)
        (config (example_device 10 20 0 0 False 0 0))) = 4
   \<and> from_value (pedal (importConfiguration json_to_uint8 (example_document 0 200)
        (config (example_device 10 20 0 0 False 0 0)))) = 127"
proof -
  let ?c = "config (example_device 10 20 0 0 False 0 0)"
  let ?r = "importConfiguration json_to_uint8 (full_document 99 200 64 128) ?c"
  from import_clamps_present_fields [of "full_document 99 200 64 128" json_to_uint8 ?c]
  have f: "channel ?r = 15" "controller (pedal ?r) = 127" "from_value (pedal ?r) = 64"
    "to_value (pedal ?r) = 127" "controller (poti ?r) = 64" "from_value (poti ?r) = 127"
    "to_value (poti ?r) = 127"
    by (simp_all add: full_document_present full_document_entry)
  have p: "pedal ?r = \<lparr>controller = 127, from_value = 64, to_value = 127\<rparr>"
    using f by (intro controller_config.equality) simp_all
  have q: "poti ?r = \<lparr>controller = 64, from_value = 127, to_value = 127\<rparr>"
    using f by (intro controller_config.equality) simp_all
  have 1: "?r = \<lparr>channel = 15, pedal = \<lparr>controller = 127, from_value = 64, to_value = 127\<rparr>,
          poti = \<lparr>controller = 64, from_value = 127, to_value = 127\<rparr>\<rparr>"
    using f(1) p q by (intro configuration.equality) simp_all
  from import_clamps_present_fields [of "example_document 0 200" json_to_uint8 ?c]
  have 2: "channel (importConfiguration json_to_uint8 (example_document 0 200) ?c) = 0"
    "from_value (pedal (importConfiguration json_to_uint8 (example_document 0 200) ?c)) = 127"
    by (simp_all add: example_document_present example_document_entry)
  from import_clamps_present_fields [of "example_document 5 64" json_to_uint8 ?c]
  have 3: "channel (importConfiguration json_to_uint8 (example_document 5 64) ?c) = 4"
    by (simp add: example_document_present example_document_entry)
  show ?thesis using 1 2 3 by (simp add: full_document_present)
qed

text \<open>
  C4. For every configuration with the channel in 0..15 and all controller, from and to
  fields in 0..127, importing the exported document gives back that configuration,
  whatever the store held before the import and whatever object the export filled in.
\<close>

theorem export_import_round_trip:
  assumes rb: "reads_bytes cv" and obj: "is_object j"
    and ch: "channel cfg \<le> 15"
    and pe: "controller (pedal cfg) \<le> 127" "from_value (pedal cfg) \<le> 127" "to_value (pedal cfg) \<le> 127"
    and po: "controller (poti cfg) \<le> 127" "from_value (poti cfg) \<le> 127" "to_value (poti cfg) \<le> 127"
  shows "importConfiguration cv (exportConfiguration cfg j) cfg' = cfg"
proof -
  let ?d = "exportConfiguration cfg j"
  let ?r = "importConfiguration cv ?d cfg'"
  have nb: "\<not> 127 < w" if "w \<le> 127" for w :: "8 word" using that by simp
  have c: "channel ?r = channel cfg"
    using channel_round_trip [OF ch]
    by (simp add: importConfiguration_def import_channel_field exported_present [OF obj]
        exported_channel [OF obj] reads_bytes_succ [OF rb ch])
  have p: "pedal ?r = pedal cfg"
    using pe
    by (intro controller_config.equality)
      (simp_all add: importConfiguration_def import_controller_field exported_present [OF obj]
        exported_entries [OF obj] reads_bytes_uint [OF rb] nb)
  have q: "poti ?r = poti cfg"
    using po
    by (intro controller_config.equality)
      (simp_all add: importConfiguration_def import_controller_field exported_present [OF obj]
        exported_entries [OF obj] reads_bytes_uint [OF rb] nb)
  show ?thesis using c p q by (intro configuration.equality) (simp_all add: importConfiguration_def)
qed

text \<open>The round trip of one configuration through an empty object.\<close>

theorem export_import_round_trip_witness:
  "reads_bytes json_to_uint8 \<and> is_object (JObject [])
   \<and> channel (config (example_device 10 20 0 0 False 0 0)) \<le> 15
   \<and> controller (pedal (config (example_device 10 20 0 0 False 0 0))) \<le> 127
   \<and> from_value (pedal (config (example_device 10 20 0 0 False 0 0))) \<le> 127
   \<and> to_value (pedal (config (example_device 10 20 0 0 False 0 0))) \<le> 127
   \<and> controller (poti (config (example_device 10 20 0 0 False 0 0))) \<le> 127
   \<and> from_value (poti (config (example_device 10 20 0 0 False 0 0))) \<le> 127
   \<and> to_value (poti (config (example_device 10 20 0 0 False 0 0))) \<le> 127
   \<and> importConfiguration json_to_uint8
        (exportConfiguration (config (example_device 10 20 0 0 False 0 0)) (JObject []))
        (config (example_device 100 3 0 0 False 0 0))
       = config (example_device 10 20 0 0 False 0 0)"
proof -
  let ?c = "config (example_device 10 20 0 0 False 0 0)"
  have o: "is_object (JObject [])" by simp
  have h: "channel ?c \<le> 15" "controller (pedal ?c) \<le> 127" "from_value (pedal ?c) \<le> 127"
    "to_value (pedal ?c) \<le> 127" "controller (poti ?c) \<le> 127" "from_value (poti ?c) \<le> 127"
    "to_value (poti ?c) \<le> 127"
    by simp_all
  from export_import_round_trip [OF reads_bytes_json_to_uint8 o h,
      of "config (example_device 100 3 0 0 False 0 0)"]
    reads_bytes_json_to_uint8 o h
  show ?thesis by blast
qed

text \<open>
  C5. For a fraction \<open>f\<close> (a single-precision value) and a fixed configuration, the pedal
  value computed from the fraction \<open>1 - f\<close> with the reverse flag set equals the pedal
  value computed from \<open>f\<close> without it; the potentiometer value does not depend on the
  reverse flag.
\<close>

theorem reversal_mirrors_fraction:
  assumes "f32 f = f"
    and "getFraction P (m_pedal s) = f" and "getFraction P (m_pedal s') = 1 - f"
    and "config s' = config s" and "\<not> m_reverse s" and "m_reverse s'"
  shows "pedal_value P s' = pedal_value P s
       \<and> poti_value P (s\<lparr>m_reverse := b\<rparr>) = poti_value P s"
proof -
  have "pedal_fraction P s' = f32 (1 - (1 - f))" using assms(3,6) by (simp add: pedal_fraction_def)
  also have "\<dots> = f" using assms(1) by simp
  also have "\<dots> = pedal_fraction P s" using assms(2,5) by (simp add: pedal_fraction_def)
  finally have "pedal_value P s' = pedal_value P s" using assms(4) by (simp add: pedal_value_def)
  moreover have "poti_value P (s\<lparr>m_reverse := b\<rparr>) = poti_value P s"
    by (simp add: poti_value_def)
  ultimately show ?thesis ..
qed

text \<open>The pedal at one quarter, and at three quarters with the reverse flag set.\<close>

theorem reversal_mirrors_fraction_witness:
  "f32 (1 / 4) = 1 / 4
   \<and> getFraction (passthrough False) (m_pedal (example_device 0 127 (1 / 4) (1 / 4) False 0 0)) = 1 / 4
   \<and> getFraction (passthrough False) (m_pedal (example_device 0 127 (3 / 4) (1 / 4) True 0 0)) = 1 - 1 / 4
   \<and> config (example_device 0 127 (3 / 4) (1 / 4) True 0 0)
       = config (example_device 0 127 (1 / 4) (1 / 4) False 0 0)
   \<and> \<not> m_reverse (example_device 0 127 (1 / 4) (1 / 4) False 0 0)
   \<and> m_reverse (example_device 0 127 (3 / 4) (1 / 4) True 0 0)
   \<and> pedal_value (passthrough False) (example_device 0 127 (3 / 4) (1 / 4) True 0 0)
       = pedal_value (passthrough False) (example_device 0 127 (1 / 4) (1 / 4) False 0 0)
   \<and> poti_value (passthrough False) ((example_device 0 127 (1 / 4) (1 / 4) False 0 0)\<lparr>m_reverse := True\<rparr>)
       = poti_value (passthrough False) (example_device 0 127 (1 / 4) (1 / 4) False 0 0)"
proof -
  have f: "f32 (1 / 4) = 1 / 4" by code_simp
  have h: "getFraction (passthrough False) (m_pedal (example_device 0 127 (1 / 4) (1 / 4) False 0 0)) = 1 / 4"
    "getFraction (passthrough False) (m_pedal (example_device 0 127 (3 / 4) (1 / 4) True 0 0)) = 1 - 1 / 4"
    "config (example_device 0 127 (3 / 4) (1 / 4) True 0 0)
       = config (example_device 0 127 (1 / 4) (1 / 4) False 0 0)"
    "\<not> m_reverse (example_device 0 127 (1 / 4) (1 / 4) False 0 0)"
    "m_reverse (example_device 0 127 (3 / 4) (1 / 4) True 0 0)"
    by simp_all
  from reversal_mirrors_fraction [OF f h, where b = True] f h show ?thesis by blast
qed

text \<open>
  The fraction of the reversed evaluation has to be \<open>1 - f\<close> exactly. When \<open>1 - f\<close> is not
  a single-precision value and the filter reports the nearest one, the two values can
  differ: from 0 to 43 at \<open>f = 780335 / 2 ^ 25\<close> the value is 0, and 1 with the reverse
  flag set and the rounded complement.
\<close>

lemma reversal_needs_exact_complement:
  "f32 (780335 / 2 ^ 25) = 780335 / 2 ^ 25
   \<and> f32 (1 - 780335 / 2 ^ 25) = 2048381 / 2 ^ 21
   \<and> pedal_value (passthrough False) (example_device 0 43 (780335 / 2 ^ 25) 0 False 0 0) = Some 0
   \<and> pedal_value (passthrough False) (example_device 0 43 (2048381 / 2 ^ 21) 0 True 0 0) = Some 1"
proof -
  have 1: "f32 (780335 / 2 ^ 25) = 780335 / 2 ^ 25" by code_simp
  have 2: "f32 (1 - 780335 / 2 ^ 25) = 2048381 / 2 ^ 21" by code_simp
  have 3: "pedal_value (passthrough False) (example_device 0 43 (780335 / 2 ^ 25) 0 False 0 0) = Some 0"
    by code_simp
  have 4: "pedal_value (passthrough False) (example_device 0 43 (2048381 / 2 ^ 21) 0 True 0 0) = Some 1"
    by code_simp
  from 1 2 3 4 show ?thesis by blast
qed

text \<open>
  C6. For every state in which both values are defined, an evaluation without force
  emits at most one message per input, and a second evaluation without force right
  after it emits nothing and changes nothing; with force the second evaluation emits
  both messages.
\<close>

theorem second_evaluation_is_silent:
  assumes pv: "pedal_value P s = Some v" and qv: "poti_value P s = Some w"
  shows "\<exists>out s1. sendEvents P False s = Some (out, s1)
     \<and> out = (if m_step_pedal s \<noteq> v
               then [ControlChange (channel (config s)) (controller (pedal (config s))) v] else [])
            @ (if m_step_poti s \<noteq> w
               then [ControlChange (channel (config s)) (controller (poti (config s))) w] else [])
     \<and> sendEvents P False s1 = Some ([], s1)
     \<and> map_option fst (sendEvents P True s1) =
         Some [ControlChange (channel (config s)) (controller (pedal (config s))) v,
               ControlChange (channel (config s)) (controller (poti (config s))) w]"
proof -
  let ?s1 = "s\<lparr>m_step_pedal := v, m_step_poti := w,
            m_midi := (if False \<or> m_step_poti s \<noteq> w
                       then ControlChange (channel (config s)) (controller (poti (config s))) w
                       else if False \<or> m_step_pedal s \<noteq> v
                       then ControlChange (channel (config s)) (controller (pedal (config s))) v
                       else m_midi s)\<rparr>"
  have pv1: "pedal_value P ?s1 = Some v" by (simp only: pedal_value_frame pv)
  have qv1: "poti_value P ?s1 = Some w" by (simp only: poti_value_frame3 qv)
  have 2: "sendEvents P False ?s1 = Some ([], ?s1)"
    unfolding sendEvents_Some [OF pv1 qv1] by simp
  have 3: "map_option fst (sendEvents P True ?s1) =
         Some [ControlChange (channel (config s)) (controller (pedal (config s))) v,
               ControlChange (channel (config s)) (controller (poti (config s))) w]"
    unfolding sendEvents_Some [OF pv1 qv1] by simp
  show ?thesis using 2 3 unfolding sendEvents_Some [OF pv qv, of False] by simp
qed

text \<open>
  The pedal already at its value and the potentiometer not: the first call emits the
  potentiometer message alone, the second call nothing.
\<close>

theorem second_evaluation_is_silent_witness:
  "pedal_value (passthrough False) (example_device 0 127 (1 / 2) (1 / 4) False 63 0) = Some 63
   \<and> poti_value (passthrough False) (example_device 0 127 (1 / 2) (1 / 4) False 63 0) = Some 31
   \<and> (\<exists>s1. sendEvents (passthrough False) False (example_device 0 127 (1 / 2) (1 / 4) False 63 0)
              = Some ([ControlChange 0 9 31], s1)
          \<and> sendEvents (passthrough False) False s1 = Some ([], s1)
          \<and> map_option fst (sendEvents (passthrough False) True s1)
              = Some [ControlChange 0 11 63, ControlChange 0 9 31])"
  using second_evaluation_is_silent [OF ex_values [of 63 0]] ex_values [of 63 0]
  by auto

text \<open>
  C7. For every state in which both values are defined, an inbound Control Change with
  controller 120 (All Sound Off) or 123 (All Notes Off) emits the pedal and the
  potentiometer message, whether or not the values equal the last emitted ones, and
  leaves the filters, the reverse flag, both timestamps and the configuration as they
  were; an inbound Control Change with any other controller emits nothing and changes
  nothing, in every state.
\<close>

theorem all_notes_off_forces_emission:
  "((ctrl = 120 \<or> ctrl = 123) \<and> pedal_value P s = Some v \<and> poti_value P s = Some w \<longrightarrow>
      (\<exists>s'. handleControlChange P chan ctrl val s =
              Some ([ControlChange (channel (config s)) (controller (pedal (config s))) v,
                     ControlChange (channel (config s)) (controller (poti (config s))) w], s')
          \<and> m_step_pedal s' = v \<and> m_step_poti s' = w
          \<and> m_pedal s' = m_pedal s \<and> m_poti s' = m_poti s \<and> m_reverse s' = m_reverse s
          \<and> m_measure_usec s' = m_measure_usec s \<and> m_events_usec s' = m_events_usec s
          \<and> config s' = config s))
   \<and> (ctrl \<noteq> 120 \<and> ctrl \<noteq> 123 \<longrightarrow> handleControlChange P chan ctrl val s = Some ([], s))"
proof (intro conjI impI)
  assume a: "(ctrl = 120 \<or> ctrl = 123) \<and> pedal_value P s = Some v \<and> poti_value P s = Some w"
  then have c: "ctrl = AllSoundOff \<or> ctrl = AllNotesOff" by (simp add: AllSoundOff_def AllNotesOff_def)
  from a have pv: "pedal_value P s = Some v" and qv: "poti_value P s = Some w" by simp_all
  have "handleControlChange P chan ctrl val s = sendEvents P True s"
    using c by (simp add: handleControlChange_def allNotesOff_def)
  then show "\<exists>s'. handleControlChange P chan ctrl val s =
              Some ([ControlChange (channel (config s)) (controller (pedal (config s))) v,
                     ControlChange (channel (config s)) (controller (poti (config s))) w], s')
          \<and> m_step_pedal s' = v \<and> m_step_poti s' = w
          \<and> m_pedal s' = m_pedal s \<and> m_poti s' = m_poti s \<and> m_reverse s' = m_reverse s
          \<and> m_measure_usec s' = m_measure_usec s \<and> m_events_usec s' = m_events_usec s
          \<and> config s' = config s"
    unfolding sendEvents_Some [OF pv qv] by simp
next
  assume "ctrl \<noteq> 120 \<and> ctrl \<noteq> 123"
  then show "handleControlChange P chan ctrl val s = Some ([], s)"
    by (simp add: handleControlChange_def AllSoundOff_def AllNotesOff_def)
qed

text \<open>
  Both last-emitted values equal to the computed ones: controller 123 still emits both
  messages, controller 7 none.
\<close>

theorem all_notes_off_forces_emission_witness:
  "pedal_value (passthrough False) (example_device 0 127 (1 / 2) (1 / 4) False 63 31) = Some 63
   \<and> poti_value (passthrough False) (example_device 0 127 (1 / 2) (1 / 4) False 63 31) = Some 31
   \<and> map_option fst (handleControlChange (passthrough False) 0 123 0
                        (example_device 0 127 (1 / 2) (1 / 4) False 63 31))
       = Some [ControlChange 0 11 63, ControlChange 0 9 31]
   \<and> handleControlChange (passthrough False) 0 7 100 (example_device 0 127 (1 / 2) (1 / 4) False 63 31)
       = Some ([], example_device 0 127 (1 / 2) (1 / 4) False 63 31)"
  using all_notes_off_forces_emission [where ctrl = 123 and P = "passthrough False"
      and s = "example_device 0 127 (1 / 2) (1 / 4) False 63 31" and v = 63 and w = 31
      and chan = 0 and val = 0]
    all_notes_off_forces_emission [where ctrl = 7 and P = "passthrough False"
      and s = "example_device 0 127 (1 / 2) (1 / 4) False 63 31" and v = 63 and w = 31
      and chan = 0 and val = 100]
    ex_values [of 63 31]
  by auto

text \<open>
  C8. For every imported document and every field of the configuration: when the field
  is not explicitly present (its top-level key is absent or no object, or its entry is
  absent or null), the import leaves the stored field as it was.
\<close>

theorem import_leaves_absent_fields:
  "(\<not> present j ''midi'' ''channel'' \<longrightarrow>
      channel (importConfiguration cv j cfg) = channel cfg)
   \<and> (\<not> present j ''pedal'' ''controller'' \<longrightarrow>
      controller (pedal (importConfiguration cv j cfg)) = controller (pedal cfg))
   \<and> (\<not> present j ''pedal'' ''from'' \<longrightarrow>
      from_value (pedal (importConfiguration cv j cfg)) = from_value (pedal cfg))
   \<and> (\<not> present j ''pedal'' ''to'' \<longrightarrow>
      to_value (pedal (importConfiguration cv j cfg)) = to_value (pedal cfg))
   \<and> (\<not> present j ''potentiometer'' ''controller'' \<longrightarrow>
      controller (poti (importConfiguration cv j cfg)) = controller (poti cfg))
   \<and> (\<not> present j ''potentiometer'' ''from'' \<longrightarrow>
      from_value (poti (importConfiguration cv j cfg)) = from_value (poti cfg))
   \<and> (\<not> present j ''potentiometer'' ''to'' \<longrightarrow>
      to_value (poti (importConfiguration cv j cfg)) = to_value (poti cfg))"
proof -
  let ?r = "importConfiguration cv j cfg"
  have c: "channel ?r = import_channel cv (as_object (member_of j ''midi'')) (channel cfg)"
    by (simp add: importConfiguration_def)
  have p: "pedal ?r = import_controller cv (as_object (member_of j ''pedal'')) (pedal cfg)"
    by (simp add: importConfiguration_def)
  have q: "poti ?r = import_controller cv (as_object (member_of j ''potentiometer'')) (poti cfg)"
    by (simp add: importConfiguration_def)
  show ?thesis
    unfolding c p q import_channel_field import_controller_field by simp
qed

text \<open>
  The empty document leaves the whole configuration as it was; a document without a
  \<^verbatim>\<open>potentiometer\<close> key, without \<^verbatim>\<open>pedal.controller\<close> and with a null \<^verbatim>\<open>pedal.to\<close>
  writes the channel and \<^verbatim>\<open>pedal.from\<close> only.
\<close>

theorem import_leaves_absent_fields_witness:
  "\<not> present (JObject []) ''midi'' ''channel''
   \<and> \<not> present (JObject []) ''pedal'' ''controller''
   \<and> \<not> present (JObject []) ''pedal'' ''from''
   \<and> \<not> present (JObject []) ''pedal'' ''to''
   \<and> \<not> present (JObject []) ''potentiometer'' ''controller''
   \<and> \<not> present (JObject []) ''potentiometer'' ''from''
   \<and> \<not> present (JObject []) ''potentiometer'' ''to''
   \<and> importConfiguration json_to_uint8 (JObject []) (config (example_device 10 20 0 0 False 0 0))
       = config (example_device 10 20 0 0 False 0 0)
   \<and> \<not> present (example_document 5 64) ''pedal'' ''to''
   \<and> \<not> present (example_document 5 64) ''potentiometer'' ''from''
   \<and> importConfiguration json_to_uint8 (example_document 5 64) (config (example_device 10 20 0 0 False 0 0))
       = \<lparr>channel = 4, pedal = \<lparr>controller = 11, from_value = 64, to_value = 20\<rparr>,
          poti = \<lparr>controller = 9, from_value = 0, to_value = 127\<rparr>\<rparr>"
proof -
  let ?c = "config (example_device 10 20 0 0 False 0 0)"
  let ?r = "importConfiguration json_to_uint8 (JObject []) ?c"
  let ?e = "importConfiguration json_to_uint8 (example_document 5 64) ?c"
  from import_leaves_absent_fields [of "JObject []" json_to_uint8 ?c]
  have f: "channel ?r = 0" "controller (pedal ?r) = 11" "from_value (pedal ?r) = 10"
    "to_value (pedal ?r) = 20" "controller (poti ?r) = 9" "from_value (poti ?r) = 0"
    "to_value (poti ?r) = 127"
    by (simp_all add: empty_document_absent)
  have p: "pedal ?r = pedal ?c" using f by (intro controller_config.equality) simp_all
  have q: "poti ?r = poti ?c" using f by (intro controller_config.equality) simp_all
  have 1: "?r = ?c" using f(1) p q by (intro configuration.equality) simp_all
  from import_leaves_absent_fields [of "example_document 5 64" json_to_uint8 ?c]
  have g: "controller (pedal ?e) = 11" "to_value (pedal ?e) = 20" "controller (poti ?e) = 9"
    "from_value (poti ?e) = 0" "to_value (poti ?e) = 127"
    by (simp_all add: example_document_present)
  have h: "channel ?e = 4" "from_value (pedal ?e) = 64"
    by (simp_all add: importConfiguration_def import_channel_field import_controller_field
        example_document_present example_document_entry)
  have p2: "pedal ?e = \<lparr>controller = 11, from_value = 64, to_value = 20\<rparr>"
    using g h by (intro controller_config.equality) simp_all
  have q2: "poti ?e = \<lparr>controller = 9, from_value = 0, to_value = 127\<rparr>"
    using g by (intro controller_config.equality) simp_all
  have 2: "?e = \<lparr>channel = 4, pedal = \<lparr>controller = 11, from_value = 64, to_value = 20\<rparr>,
          poti = \<lparr>controller = 9, from_value = 0, to_value = 127\<rparr>\<rparr>"
    using h(1) p2 q2 by (intro configuration.equality) simp_all
  show ?thesis using 1 2 by (simp add: empty_document_absent example_document_present)
qed

text \<open>
  C9. For every state, the status document reports the stored channel as it is, and the
  exported configuration reports the stored channel plus 1; for a stored channel in
  0..15 the first is in 0..15 and the second in 1..16.
\<close>

theorem status_channel_is_zero_based:
  assumes "is_object j" and "is_object j'"
  shows "member_of (exportOutput s j) ''channel'' = JInt (uint (channel (config s)))
       \<and> entry (exportConfiguration (config s) j') ''midi'' ''channel'' = JInt (uint (channel (config s)) + 1)
       \<and> (channel (config s) \<le> 15 \<longrightarrow>
            uint (channel (config s)) \<in> {0..15} \<and> uint (channel (config s)) + 1 \<in> {1..16})"
proof -
  have 1: "member_of (exportOutput s j) ''channel'' = JInt (uint (channel (config s)))"
    using assms(1) by (simp add: exportOutput_def Let_def member_of_set_member)
  have 2: "uint (channel (config s)) \<le> 15" if "channel (config s) \<le> 15"
    using that by (simp add: word_le_def)
  show ?thesis using 1 2 exported_channel [OF assms(2)] by simp
qed

text \<open>Channel 0 is reported as 0 in the status document and as 1 in the export.\<close>

theorem status_channel_is_zero_based_witness:
  "is_object (JObject []) \<and> channel (config (example_device 10 20 0 0 False 0 0)) \<le> 15
   \<and> member_of (exportOutput (example_device 10 20 0 0 False 0 0) (JObject [])) ''channel'' = JInt 0
   \<and> entry (exportConfiguration (config (example_device 10 20 0 0 False 0 0)) (JObject []))
        ''midi'' ''channel'' = JInt 1"
proof -
  have o: "is_object (JObject [])" by simp
  from status_channel_is_zero_based [OF o o, of "example_device 10 20 0 0 False 0 0"] o
  show ?thesis by simp
qed

text \<open>
  C10. For every state in which both values are defined and every value of the force
  flag: an evaluation emits the message of an input exactly when the force flag is set
  or the computed value differs from the stored one; afterwards the stored value of each
  input is the computed value, the packet buffer holds the last message emitted, and
  nothing else has changed; a call that emits nothing leaves the state as it was.
\<close>

theorem sendEvents_stores_computed_value:
  assumes pv: "pedal_value P s = Some v" and qv: "poti_value P s = Some w"
  shows "\<exists>out s'. sendEvents P force s = Some (out, s')
     \<and> out = (if force \<or> m_step_pedal s \<noteq> v
               then [ControlChange (channel (config s)) (controller (pedal (config s))) v] else [])
            @ (if force \<or> m_step_poti s \<noteq> w
               then [ControlChange (channel (config s)) (controller (poti (config s))) w] else [])
     \<and> m_step_pedal s' = v \<and> m_step_poti s' = w
     \<and> (out = [] \<longrightarrow> s' = s)
     \<and> s' = s\<lparr>m_step_pedal := v, m_step_poti := w,
                 m_midi := (if out = [] then m_midi s else last out)\<rparr>"
  unfolding sendEvents_Some [OF pv qv] by auto

text \<open>
  The pedal already at its value and the potentiometer not, without force: one message,
  and both stored values are the computed ones.
\<close>

theorem sendEvents_stores_computed_value_witness:
  "pedal_value (passthrough False) (example_device 0 127 (1 / 2) (1 / 4) False 63 0) = Some 63
   \<and> poti_value (passthrough False) (example_device 0 127 (1 / 2) (1 / 4) False 63 0) = Some 31
   \<and> sendEvents (passthrough False) False (example_device 0 127 (1 / 2) (1 / 4) False 63 0) =
       Some ([ControlChange 0 9 31],
             (example_device 0 127 (1 / 2) (1 / 4) False 63 0)
               \<lparr>m_step_pedal := 63, m_step_poti := 31, m_midi := ControlChange 0 9 31\<rparr>)"
  using sendEvents_stores_computed_value [OF ex_values [of 63 0], where force = False] ex_values [of 63 0]
  by auto

end
